theory Spec2Isabelle
  imports Complex_Main
begin

section \<open>JavaScript values used by the client script\<close>

text \<open>
  The model follows \<^verbatim>\<open>src/txtai/script.js\<close>. A JavaScript string is a \<^typ>\<open>string\<close>,
  one \<^typ>\<open>char\<close> per code unit, for the code units up to U+00FF. A value that the script
  only tests for presence or truth is \<^term>\<open>None\<close> when it is absent, \<^verbatim>\<open>null\<close> or
  \<^verbatim>\<open>undefined\<close>; a value that it also prints is a \<open>field\<close>, which tells the three
  apart. A number that the script only counts with is a \<^typ>\<open>nat\<close>. Coordinates on the
  PDF page are \<^typ>\<open>real\<close>.
\<close>

text \<open>
  A property of a JSON payload that a template literal prints: left out (it reads as
  \<^verbatim>\<open>undefined\<close>), \<^verbatim>\<open>null\<close>, or a value.
\<close>

datatype 'a field = Undefined | Null | Val 'a

text \<open>Truthiness of an optional string: \<^verbatim>\<open>undefined\<close>, \<^verbatim>\<open>null\<close> and \<^verbatim>\<open>''\<close> are falsy.\<close>

definition truthy :: "string option \<Rightarrow> bool" where
  "truthy v = (case v of None \<Rightarrow> False | Some s \<Rightarrow> s \<noteq> [])"

text \<open>\<^verbatim>\<open>a || b\<close> on an optional string.\<close>

definition or_else :: "string option \<Rightarrow> string \<Rightarrow> string" where
  "or_else v d = (case v of None \<Rightarrow> d | Some s \<Rightarrow> if s = [] then d else s)"

text \<open>\<^verbatim>\<open>s.substring(0, n)\<close>: the first \<open>n\<close> code units, or all of \<open>s\<close> when it is shorter.\<close>

definition substring0 :: "nat \<Rightarrow> string \<Rightarrow> string" where
  "substring0 n s = take n s"

text \<open>Decimal rendering of a count inside a template literal.\<close>

definition digit :: "nat \<Rightarrow> char" where
  "digit n = ''0123456789'' ! n"

fun string_of_nat :: "nat \<Rightarrow> string" where
  "string_of_nat n =
     (if n < 10 then [digit n] else string_of_nat (n div 10) @ [digit (n mod 10)])"

declare string_of_nat.simps [simp del]

text \<open>\<^verbatim>\<open>${x}\<close> for a count and for a string.\<close>

definition show_count :: "nat field \<Rightarrow> string" where
  "show_count v =
     (case v of Undefined \<Rightarrow> ''undefined'' | Null \<Rightarrow> ''null'' | Val n \<Rightarrow> string_of_nat n)"

definition show_string :: "string field \<Rightarrow> string" where
  "show_string v = (case v of Undefined \<Rightarrow> ''undefined'' | Null \<Rightarrow> ''null'' | Val s \<Rightarrow> s)"

text \<open>\<^verbatim>\<open>x || 0\<close> for a count.\<close>

definition count_or_0 :: "nat field \<Rightarrow> nat" where
  "count_or_0 v = (case v of Undefined \<Rightarrow> 0 | Null \<Rightarrow> 0 | Val n \<Rightarrow> n)"

text \<open>\<^verbatim>\<open>xs.join(', ')\<close>.\<close>

fun join_comma :: "string list \<Rightarrow> string" where
  "join_comma [] = []"
| "join_comma [x] = x"
| "join_comma (x # y # ys) = x @ '', '' @ join_comma (y # ys)"

subsection \<open>The built-in \<^verbatim>\<open>Set\<close>\<close>

text \<open>
  A \<^verbatim>\<open>Set\<close> of filenames keeps its members in insertion order, which
  \<^verbatim>\<open>Array.from\<close> reads; it is a list without repetitions.
\<close>

type_synonym js_set = "string list"

definition Set_has :: "string \<Rightarrow> js_set \<Rightarrow> bool" where
  "Set_has x s = (x \<in> set s)"

definition Set_add :: "string \<Rightarrow> js_set \<Rightarrow> js_set" where
  "Set_add x s = (if x \<in> set s then s else s @ [x])"

definition Set_delete :: "string \<Rightarrow> js_set \<Rightarrow> js_set" where
  "Set_delete x s = filter (\<lambda>y. y \<noteq> x) s"

definition Set_size :: "js_set \<Rightarrow> nat" where
  "Set_size s = length s"

definition Set_clear :: "js_set \<Rightarrow> js_set" where
  "Set_clear s = []"

definition Array_from :: "js_set \<Rightarrow> string list" where
  "Array_from s = s"

section \<open>Backend payloads\<close>

record document =
  filename :: string
  char_count :: nat
  chunks :: nat

record maharera_document =
  m_filename :: string
  m_title :: "string option"
  m_doc_type :: string
  m_date :: "string option"
  m_char_count :: nat

record missing_item =
  mi_domain :: string
  mi_description :: string

record compliance_summary =
  is_compliant :: bool
  compliant_count :: "nat field"
  total_checks :: "nat field"
  critical_missing :: "missing_item list option"
  high_missing :: "missing_item list option"
  medium_missing :: "missing_item list option"

record clause_source =
  cs_filename :: "string option"
  cs_section :: "string option"
  cs_excerpt :: "string option"

record authority =
  au_filename :: string
  au_excerpt :: string

record red_flag =
  severity :: string
  rule_id :: string
  rf_domain :: string
  reason :: string
  clause_source :: "clause_source option"
  authority_support :: "authority list option"
  has_authority_support :: "bool option"

record decision =
  compliance_check :: "bool option"
  is_red_flag :: "bool option"

record source =
  src_filename :: string
  src_section :: "string option"
  src_chunk_idx :: nat
  src_score :: real
  src_text :: string

text \<open>The payload of a successful \<^verbatim>\<open>/query\<close> response.\<close>

record query_data =
  answer :: string
  sources :: "source list option"
  red_flags :: "red_flag list option"
  qd_decision :: "decision option"
  qd_compliance_summary :: "compliance_summary option"

section \<open>Rendering a chat message (\<^verbatim>\<open>addMessage\<close>)\<close>

text \<open>
  Markup is a string. The indentation and line breaks that the template literals put
  between tags are left out; every tag, attribute and text of the templates is kept.
  \<^verbatim>\<open>escapeHtml\<close> lets the browser serialise the text of a detached element
  (\<^verbatim>\<open>div.textContent = text; div.innerHTML\<close>) and then replaces each newline by
  \<^verbatim>\<open><br>\<close>; the browser's serialisation is the parameter \<open>ser\<close>.
\<close>

type_synonym html = string

definition escapeHtml :: "(string \<Rightarrow> html) \<Rightarrow> string \<Rightarrow> html" where
  "escapeHtml ser text = concat (map (\<lambda>c. if c = CHR 0x0A then ''<br>'' else [c]) (ser text))"

definition isComplianceCheck :: "decision option \<Rightarrow> bool" where
  "isComplianceCheck d = (case d of None \<Rightarrow> False | Some dc \<Rightarrow> compliance_check dc = Some True)"

definition list_or_empty :: "'a list option \<Rightarrow> 'a list" where
  "list_or_empty v = (case v of None \<Rightarrow> [] | Some xs \<Rightarrow> xs)"

definition missing_item_html :: "(string \<Rightarrow> html) \<Rightarrow> string \<Rightarrow> missing_item \<Rightarrow> html" where
  \<open>missing_item_html ser colour r =
     ''<div class="missing-item" style="border-left-color: '' @ colour @ ''">''
     @ ''<span class="missing-domain">'' @ mi_domain r @ ''</span>''
     @ ''<span class="missing-desc">'' @ escapeHtml ser (mi_description r) @ ''</span>''
     @ ''</div>''\<close>

text \<open>
  One of the three groups of missing clauses; the script writes the template three times,
  with the class, the icon, the label and the colour of the group.
\<close>

definition missing_group_html ::
  "(string \<Rightarrow> html) \<Rightarrow> string \<Rightarrow> string \<Rightarrow> string \<Rightarrow> string \<Rightarrow> missing_item list \<Rightarrow> html" where
  \<open>missing_group_html ser cls icon label colour rs =
     (if length rs > 0 then
        ''<div class="missing-group '' @ cls @ ''">''
        @ ''<div class="missing-group-title">'' @ icon @ '' '' @ label @ '' (''
        @ string_of_nat (length rs) @ '')</div>''
        @ concat (map (missing_item_html ser colour) rs)
        @ ''</div>''
      else [])\<close>

definition complianceHTML ::
  "(string \<Rightarrow> html) \<Rightarrow> decision option \<Rightarrow> compliance_summary option \<Rightarrow> html" where
  \<open>complianceHTML ser dec summary =
     (case summary of
        None \<Rightarrow> []
      | Some cs \<Rightarrow>
          if isComplianceCheck dec then
            (let isFullyCompliant = is_compliant cs;
                 compliantCount = count_or_0 (compliant_count cs);
                 totalChecks = count_or_0 (total_checks cs);
                 missingCritical = list_or_empty (critical_missing cs);
                 missingHigh = list_or_empty (high_missing cs);
                 missingMedium = list_or_empty (medium_missing cs)
             in ''<div class="compliance-container ''
                @ (if isFullyCompliant then ''compliant'' else ''non-compliant'') @ ''">''
                @ ''<div class="compliance-header ''
                @ (if isFullyCompliant then [] else ''has-issues'') @ ''">''
                @ ''Required Clauses Verification: '' @ string_of_nat compliantCount @ ''/''
                @ string_of_nat totalChecks @ '' Found</div>''
                @ (if \<not> isFullyCompliant then
                     ''<div class="compliance-missing">''
                     @ missing_group_html ser ''critical'' ''[!]'' ''Critical Missing''
                         ''#dc2626'' missingCritical
                     @ missing_group_html ser ''high'' ''[!]'' ''High Priority Missing''
                         ''#ea580c'' missingHigh
                     @ missing_group_html ser ''medium'' ''[i]'' ''Medium Priority Missing''
                         ''#ca8a04'' missingMedium
                     @ ''</div>''
                   else
                     ''<div class="compliance-all-found">''
                     @ ''All required clauses have been found in the document.</div>'')
                @ ''</div>'')
          else [])\<close>

text \<open>
  The colour and icon tables are object literals indexed by the severity; an unknown
  severity falls back through \<^verbatim>\<open>||\<close>.
\<close>

definition severityColors :: "string \<Rightarrow> string option" where
  "severityColors = map_of
     [(''CRITICAL'', ''#dc2626''), (''HIGH'', ''#ea580c''), (''MEDIUM'', ''#ca8a04''),
      (''LOW'', ''#65a30d'')]"

definition severityIcons :: "string \<Rightarrow> string option" where
  "severityIcons = map_of
     [(''CRITICAL'', ''[!!]''), (''HIGH'', ''[!]''), (''MEDIUM'', ''[~]''), (''LOW'', ''[i]'')]"

definition empty_clause_source :: clause_source where
  "empty_clause_source = \<lparr>cs_filename = None, cs_section = None, cs_excerpt = None\<rparr>"

text \<open>The excerpt line inside the clause-source block of a red flag.\<close>

definition clause_excerpt_html :: "(string \<Rightarrow> html) \<Rightarrow> clause_source \<Rightarrow> html" where
  \<open>clause_excerpt_html ser clauseSrc =
     (if truthy (cs_excerpt clauseSrc) then
        ''<div class="clause-excerpt">"''
        @ escapeHtml ser (substring0 150 (the (cs_excerpt clauseSrc))) @ ''..."</div>''
      else [])\<close>

definition clause_source_html :: "(string \<Rightarrow> html) \<Rightarrow> clause_source \<Rightarrow> html" where
  \<open>clause_source_html ser clauseSrc =
     (if truthy (cs_filename clauseSrc) then
        ''<div class="clause-source">''
        @ ''<strong>Found in:</strong> '' @ escapeHtml ser (the (cs_filename clauseSrc))
        @ '' '' @ or_else (cs_section clauseSrc) []
        @ clause_excerpt_html ser clauseSrc
        @ ''</div>''
      else [])\<close>

definition auth_item_html :: "(string \<Rightarrow> html) \<Rightarrow> authority \<Rightarrow> html" where
  \<open>auth_item_html ser auth =
     ''<div class="auth-item">- '' @ escapeHtml ser (au_filename auth) @ '': "''
     @ escapeHtml ser (substring0 100 (au_excerpt auth)) @ ''..."</div>''\<close>

definition red_flag_item_html :: "(string \<Rightarrow> html) \<Rightarrow> red_flag \<Rightarrow> html" where
  \<open>red_flag_item_html ser flag =
     (let colour = (case severityColors (severity flag) of None \<Rightarrow> ''#666'' | Some c \<Rightarrow> c);
          icon = (case severityIcons (severity flag) of None \<Rightarrow> ''[?]'' | Some i \<Rightarrow> i);
          clauseSrc = (case clause_source flag of None \<Rightarrow> empty_clause_source | Some c \<Rightarrow> c);
          authSupport = take 2 (list_or_empty (authority_support flag));
          hasAuthSupport = (has_authority_support flag \<noteq> Some False \<and> length authSupport > 0)
      in ''<div class="red-flag-item" style="border-left: 4px solid '' @ colour @ ''">''
         @ ''<div class="red-flag-title">''
         @ ''<span class="severity-badge" style="background: '' @ colour @ ''">''
         @ icon @ '' '' @ severity flag @ ''</span>''
         @ ''<span class="rule-id">'' @ rule_id flag @ ''</span>''
         @ ''<span class="domain-badge">'' @ rf_domain flag @ ''</span>''
         @ ''</div>''
         @ ''<div class="red-flag-reason">'' @ escapeHtml ser (reason flag) @ ''</div>''
         @ clause_source_html ser clauseSrc
         @ (if hasAuthSupport then
              ''<div class="authority-support"><strong>Authority Reference:</strong>''
              @ concat (map (auth_item_html ser) authSupport) @ ''</div>''
            else [])
         @ ''</div>'')\<close>

definition red_flags_container :: "(string \<Rightarrow> html) \<Rightarrow> decision option \<Rightarrow> red_flag list \<Rightarrow> html" where
  \<open>red_flags_container ser dec redFlags =
     (let isRedFlag = (case dec of None \<Rightarrow> False | Some d \<Rightarrow> is_red_flag d = Some True);
          headerClass = (if isRedFlag then ''red-flag-header critical'' else ''red-flag-header'');
          headerText = (if isRedFlag then ''RED FLAGS DETECTED - Non-Compliant Clauses Found''
                        else ''Potential Issues Found'')
      in ''<div class="red-flags-container">''
         @ ''<div class="'' @ headerClass @ ''">'' @ headerText @ ''</div>''
         @ concat (map (red_flag_item_html ser) redFlags)
         @ ''</div>'')\<close>

definition no_red_flags_container :: html where
  \<open>no_red_flags_container =
     ''<div class="no-red-flags-container">''
     @ ''<div class="no-red-flags-header">No Red Flags Detected</div>''
     @ ''<div class="no-red-flags-message">''
     @ ''The analyzed sections of your document appear to be compliant with the selected ''
     @ ''MahaRERA regulations based on our rule-based analysis. However, please note:''
     @ ''<ul><li>This analysis covers only the retrieved document sections</li>''
     @ ''<li>Manual review by a legal professional is still recommended</li>''
     @ ''<li>Some nuanced violations may require human interpretation</li></ul>''
     @ ''</div></div>''\<close>

definition redFlagsHTML ::
  "(string \<Rightarrow> html) \<Rightarrow> decision option \<Rightarrow> red_flag list option \<Rightarrow> html" where
  "redFlagsHTML ser dec redFlags =
     (if isComplianceCheck dec \<and> redFlags \<noteq> None \<and> length (the redFlags) > 0 then
        red_flags_container ser dec (the redFlags)
      else if isComplianceCheck dec \<and> dec \<noteq> None \<and> is_red_flag (the dec) = Some False then
        no_red_flags_container
      else [])"

text \<open>
  What \<^verbatim>\<open>addMessage\<close> keeps on the message element for the download button;
  \<^verbatim>\<open>complianceResults\<close>, which is stored too and which no function reads, is left out.
\<close>

record report_data =
  rd_content :: string
  rd_redFlags :: "red_flag list option"
  rd_decision :: "decision option"
  rd_complianceSummary :: "compliance_summary option"
  rd_sources :: "source list option"

text \<open>
  The message element appended to the chat: the two optional blocks, the escaped
  content, whether the download button is shown, and the stored report data. The
  avatar, the copy button, the source list and the time stamp are not modelled.
\<close>

record message_view =
  mv_role :: string
  mv_complianceHTML :: html
  mv_redFlagsHTML :: html
  mv_bubble :: html
  mv_showDownloadBtn :: bool
  mv_reportData :: report_data

definition render_message ::
  "(string \<Rightarrow> html) \<Rightarrow> string \<Rightarrow> string \<Rightarrow> source list option \<Rightarrow> red_flag list option \<Rightarrow>
   decision option \<Rightarrow> compliance_summary option \<Rightarrow> message_view" where
  "render_message ser role content srcs redFlags dec summary =
     \<lparr>mv_role = role,
      mv_complianceHTML = complianceHTML ser dec summary,
      mv_redFlagsHTML = redFlagsHTML ser dec redFlags,
      mv_bubble = escapeHtml ser content,
      mv_showDownloadBtn = (isComplianceCheck dec \<and> role = ''assistant''),
      mv_reportData = \<lparr>rd_content = content, rd_redFlags = redFlags, rd_decision = dec,
                       rd_complianceSummary = summary, rd_sources = srcs\<rparr>\<rparr>"

section \<open>The page state\<close>

text \<open>
  The module-level \<^verbatim>\<open>state\<close> object, the elements of the page that the functions below
  read or write, and two effects on the outside: the \<^verbatim>\<open>alert\<close> boxes shown and the
  \<^verbatim>\<open>fetch\<close> calls issued, each in order.
\<close>

record settings =
  language :: string
  topK :: nat
  showSources :: bool

record checkbox =
  checked :: bool
  indeterminate :: bool
  disabled :: bool

text \<open>The JSON body of a \<^verbatim>\<open>POST /query\<close>; \<^verbatim>\<open>sendMessage\<close> sends no \<^verbatim>\<open>compliance_check\<close>.\<close>

record query_request =
  question :: string
  top_k :: nat
  req_language :: string
  selected_documents :: "string list option"
  selected_maharera :: "string list option"
  req_compliance_check :: "bool option"

datatype fetch_call =
    Post_query query_request
  | Post_delete string
  | Get_documents

text \<open>
  How an awaited \<^verbatim>\<open>fetch\<close> ends: a response with \<^verbatim>\<open>response.ok\<close> and its payload, a
  response that is not ok with the \<^verbatim>\<open>error\<close> field of its body, or a rejected promise.
\<close>

datatype 'a response = Ok 'a | Not_ok "string option" | Failed

record chat_entry =
  ce_role :: string
  ce_content :: string
  ce_sources :: "source list option"

record app_state =
  documents :: "document list"
  mahareraDocuments :: "maharera_document list"
  selectedUserDocIds :: js_set
  selectedMahareraIds :: js_set
  selectedDocument :: "string option"
  chatHistory :: "chat_entry list"
  isLoading :: bool
  app_settings :: settings
  messageInput :: string
  sendBtn_disabled :: bool
  selectAllUserDocs :: "checkbox option"
  selectAllMaharera :: checkbox
  checkComplianceBtn_disabled :: bool
  checkComplianceBtn_label :: string
  batchProcessBtn_disabled :: "bool option"
  chatMessages :: "message_view list"
  typing_indicators :: nat
  welcome_message :: bool
  alerts :: "string list"
  fetch_log :: "fetch_call list"

text \<open>
  \<^verbatim>\<open>state.selectedDocument\<close> is not among the properties the \<^verbatim>\<open>state\<close> literal
  declares; the script reads and writes it all the same, so it starts as \<^term>\<open>None\<close>.
  \<^verbatim>\<open>elements.selectAllUserDocs\<close> and \<^verbatim>\<open>elements.batchProcessBtn\<close> are tested for
  presence before use and are optional; the other elements are used unguarded.
\<close>

section \<open>The selection store\<close>

definition updateSelectAllUserDocsState :: "app_state \<Rightarrow> app_state" where
  "updateSelectAllUserDocsState st =
     (case selectAllUserDocs st of
        None \<Rightarrow> st
      | Some cb \<Rightarrow>
          (let totalDocs = length (documents st);
               selectedCount = Set_size (selectedUserDocIds st)
           in st\<lparr>selectAllUserDocs :=
                   Some (cb\<lparr>checked := (selectedCount = totalDocs \<and> totalDocs > 0),
                            indeterminate := (selectedCount > 0 \<and> selectedCount < totalDocs)\<rparr>)\<rparr>))"

definition updateSelectAllState :: "app_state \<Rightarrow> app_state" where
  "updateSelectAllState st =
     (let totalDocs = length (mahareraDocuments st);
          selectedCount = Set_size (selectedMahareraIds st)
      in st\<lparr>selectAllMaharera :=
              (selectAllMaharera st)\<lparr>checked := (selectedCount = totalDocs \<and> totalDocs > 0),
                                     indeterminate := (selectedCount > 0 \<and> selectedCount < totalDocs)\<rparr>\<rparr>)"

text \<open>The label is the text of the button; the icon markup before it is left out.\<close>

definition updateComplianceButtonState :: "app_state \<Rightarrow> app_state" where
  "updateComplianceButtonState st =
     (let hasUserDocs = (length (documents st) > 0);
          hasSelectedMaharera = (Set_size (selectedMahareraIds st) > 0);
          st1 = st\<lparr>checkComplianceBtn_disabled := \<not> (hasUserDocs \<and> hasSelectedMaharera)\<rparr>;
          st2 = (case batchProcessBtn_disabled st1 of
                   None \<Rightarrow> st1
                 | Some _ \<Rightarrow>
                     st1\<lparr>batchProcessBtn_disabled := Some (Set_size (selectedUserDocIds st1) = 0)\<rparr>);
          count = Set_size (selectedMahareraIds st2)
      in if count > 0
         then st2\<lparr>checkComplianceBtn_label := ''Check ('' @ string_of_nat count @ '')''\<rparr>
         else st2\<lparr>checkComplianceBtn_label := ''Check Compliance''\<rparr>)"

definition toggleUserDocSelection :: "string \<Rightarrow> app_state \<Rightarrow> app_state" where
  "toggleUserDocSelection fname st =
     updateComplianceButtonState (updateSelectAllUserDocsState
       (if Set_has fname (selectedUserDocIds st)
        then st\<lparr>selectedUserDocIds := Set_delete fname (selectedUserDocIds st)\<rparr>
        else st\<lparr>selectedUserDocIds := Set_add fname (selectedUserDocIds st)\<rparr>))"

definition toggleMahareraSelection :: "string \<Rightarrow> app_state \<Rightarrow> app_state" where
  "toggleMahareraSelection fname st =
     updateComplianceButtonState (updateSelectAllState
       (if Set_has fname (selectedMahareraIds st)
        then st\<lparr>selectedMahareraIds := Set_delete fname (selectedMahareraIds st)\<rparr>
        else st\<lparr>selectedMahareraIds := Set_add fname (selectedMahareraIds st)\<rparr>))"

text \<open>
  \<^verbatim>\<open>toggleSelectAllUserDocs\<close> reads the select-all checkbox, which the click has already
  flipped (the listener is attached only when the checkbox exists); it also sets every
  row's checkbox, which is not modelled.
\<close>

definition toggleSelectAllUserDocs :: "app_state \<Rightarrow> app_state" where
  "toggleSelectAllUserDocs st =
     (let isChecked = checked (the (selectAllUserDocs st));
          st1 = st\<lparr>selectedUserDocIds := Set_clear (selectedUserDocIds st)\<rparr>;
          st2 = (if isChecked
                 then st1\<lparr>selectedUserDocIds :=
                            fold (\<lambda>d s. Set_add (filename d) s) (documents st1) (selectedUserDocIds st1)\<rparr>
                 else st1)
      in updateComplianceButtonState st2)"

definition toggleSelectAllMaharera :: "app_state \<Rightarrow> app_state" where
  "toggleSelectAllMaharera st =
     (let isChecked = checked (selectAllMaharera st);
          st1 = st\<lparr>selectedMahareraIds := Set_clear (selectedMahareraIds st)\<rparr>;
          st2 = (if isChecked
                 then st1\<lparr>selectedMahareraIds :=
                            fold (\<lambda>d s. Set_add (m_filename d) s) (mahareraDocuments st1)
                              (selectedMahareraIds st1)\<rparr>
                 else st1)
      in updateComplianceButtonState st2)"

text \<open>
  \<^verbatim>\<open>renderDocumentList\<close> rewrites the rows of the list (not modelled) and enables the
  select-all checkbox, or clears and disables it when there is no document.
\<close>

definition renderDocumentList :: "app_state \<Rightarrow> app_state" where
  "renderDocumentList st =
     (case selectAllUserDocs st of
        None \<Rightarrow> st
      | Some cb \<Rightarrow>
          if length (documents st) = 0
          then st\<lparr>selectAllUserDocs := Some (cb\<lparr>checked := False, disabled := True\<rparr>)\<rparr>
          else st\<lparr>selectAllUserDocs := Some (cb\<lparr>disabled := False\<rparr>)\<rparr>)"

section \<open>The query orchestrator\<close>

text \<open>
  \<^verbatim>\<open>String.prototype.trim\<close> removes white space and line terminators from both ends;
  among the code units up to U+00FF these are U+0009 to U+000D, the space and the
  no-break space U+00A0.
\<close>

definition is_white :: "char \<Rightarrow> bool" where
  "is_white c =
     (c \<in> set [CHR 0x09, CHR 0x0A, CHR 0x0B, CHR 0x0C, CHR 0x0D, CHR 0x20, CHR 0xA0])"

definition trim :: "string \<Rightarrow> string" where
  "trim s = rev (dropWhile is_white (rev (dropWhile is_white s)))"

text \<open>
  \<^verbatim>\<open>addMessage\<close> appends the rendered message to the chat and pushes the entry on
  \<^verbatim>\<open>state.chatHistory\<close>.
\<close>

definition addMessage ::
  "(string \<Rightarrow> html) \<Rightarrow> string \<Rightarrow> string \<Rightarrow> source list option \<Rightarrow> red_flag list option \<Rightarrow>
   decision option \<Rightarrow> compliance_summary option \<Rightarrow> app_state \<Rightarrow> app_state" where
  "addMessage ser role content srcs redFlags dec summary st =
     st\<lparr>chatMessages := chatMessages st @ [render_message ser role content srcs redFlags dec summary],
        chatHistory := chatHistory st @ [\<lparr>ce_role = role, ce_content = content, ce_sources = srcs\<rparr>]\<rparr>"

definition showTypingIndicator :: "app_state \<Rightarrow> app_state" where
  "showTypingIndicator st = st\<lparr>typing_indicators := typing_indicators st + 1\<rparr>"

definition removeTypingIndicator :: "app_state \<Rightarrow> app_state" where
  "removeTypingIndicator st = st\<lparr>typing_indicators := typing_indicators st - 1\<rparr>"

definition alert :: "string \<Rightarrow> app_state \<Rightarrow> app_state" where
  "alert msg st = st\<lparr>alerts := alerts st @ [msg]\<rparr>"

definition fetch :: "fetch_call \<Rightarrow> app_state \<Rightarrow> app_state" where
  "fetch c st = st\<lparr>fetch_log := fetch_log st @ [c]\<rparr>"

text \<open>
  An \<^verbatim>\<open>async\<close> function runs synchronously up to its first \<^verbatim>\<open>await\<close>: the function
  named after the source's is that part, which ends by issuing the \<^verbatim>\<open>fetch\<close>; the
  function with suffix \<open>_resume\<close> is what runs when the awaited response arrives.
\<close>

definition sendMessage :: "(string \<Rightarrow> html) \<Rightarrow> app_state \<Rightarrow> app_state" where
  "sendMessage ser st =
     (let message = trim (messageInput st)
      in if message = [] \<or> isLoading st then st
         else
           (let st1 = st\<lparr>messageInput := [], welcome_message := False\<rparr>;
                st2 = addMessage ser ''user'' message None None None None st1;
                st3 = showTypingIndicator st2;
                st4 = st3\<lparr>isLoading := True, sendBtn_disabled := True\<rparr>;
                selectedMaharera = Array_from (selectedMahareraIds st4);
                selectedUserDocs = Array_from (selectedUserDocIds st4)
            in fetch (Post_query
                 \<lparr>question = message,
                  top_k = topK (app_settings st4),
                  req_language = language (app_settings st4),
                  selected_documents =
                    (if length selectedUserDocs > 0 then Some selectedUserDocs else None),
                  selected_maharera =
                    (if length selectedMaharera > 0 then Some selectedMaharera else None),
                  req_compliance_check = None\<rparr>) st4))"

definition sendMessage_resume ::
  "(string \<Rightarrow> html) \<Rightarrow> query_data response \<Rightarrow> app_state \<Rightarrow> app_state" where
  "sendMessage_resume ser r st =
     (let st1 = removeTypingIndicator st;
          st2 = (case r of
                   Ok data \<Rightarrow>
                     addMessage ser ''assistant'' (answer data) (sources data) (red_flags data)
                       (qd_decision data) (qd_compliance_summary data) st1
                 | Not_ok _ \<Rightarrow>
                     addMessage ser ''assistant''
                       ''Sorry, I encountered an error processing your question. Please try again.''
                       None None None None st1
                 | Failed \<Rightarrow>
                     addMessage ser ''assistant''
                       ''Unable to connect to server. Please ensure the backend is running.''
                       None None None None st1)
      in st2\<lparr>isLoading := False, sendBtn_disabled := False\<rparr>)"

definition docNames :: "maharera_document list \<Rightarrow> string list \<Rightarrow> string" where
  "docNames listing selectedDocs =
     join_comma (map (\<lambda>f. case find (\<lambda>d. m_filename d = f) listing of
                              None \<Rightarrow> f
                            | Some d \<Rightarrow> or_else (m_title d) (m_filename d)) selectedDocs)"

definition checkCompliance :: "(string \<Rightarrow> html) \<Rightarrow> app_state \<Rightarrow> app_state" where
  \<open>checkCompliance ser st =
     (if Set_size (selectedMahareraIds st) = 0 then
        alert ''Please select at least one MahaRERA document to check compliance against.'' st
      else if length (documents st) = 0 then
        alert ''No user documents loaded. Please add documents to check compliance.'' st
      else
        (let selectedUserDocs = Array_from (selectedUserDocIds st);
             userDocName = (if length selectedUserDocs > 0 then join_comma selectedUserDocs
                            else ''all user documents'');
             selectedDocs = Array_from (selectedMahareraIds st);
             complianceQuestion =
               ''Analyze '' @ userDocName
               @ '' for compliance with the following MahaRERA regulations: ''
               @ docNames (mahareraDocuments st) selectedDocs
               @ ''. Check if my real estate agreement follows all the guidelines, rules, and ''
               @ ''requirements specified in these regulatory documents. Highlight any ''
               @ ''compliance issues, missing clauses, or areas of concern.'';
             st1 = st\<lparr>welcome_message := False\<rparr>;
             st2 = addMessage ser ''user''
                     (''Compliance Check: "'' @ userDocName @ ''" against ''
                      @ string_of_nat (length selectedDocs) @ '' MahaRERA document(s)'')
                     None None None None st1;
             st3 = showTypingIndicator st2;
             st4 = st3\<lparr>isLoading := True, sendBtn_disabled := True,
                       checkComplianceBtn_disabled := True\<rparr>
         in fetch (Post_query
              \<lparr>question = complianceQuestion,
               top_k = 10,
               req_language = language (app_settings st4),
               selected_documents =
                 (if length selectedUserDocs > 0 then Some selectedUserDocs else None),
               selected_maharera = Some selectedDocs,
               req_compliance_check = Some True\<rparr>) st4))\<close>

definition checkCompliance_resume ::
  "(string \<Rightarrow> html) \<Rightarrow> query_data response \<Rightarrow> app_state \<Rightarrow> app_state" where
  "checkCompliance_resume ser r st =
     (let st1 = removeTypingIndicator st;
          st2 = (case r of
                   Ok data \<Rightarrow>
                     addMessage ser ''assistant'' (answer data) (sources data) (red_flags data)
                       (qd_decision data) (qd_compliance_summary data) st1
                 | Not_ok err \<Rightarrow>
                     addMessage ser ''assistant''
                       (''Error checking compliance: '' @ or_else err ''Unknown error'')
                       None None None None st1
                 | Failed \<Rightarrow>
                     addMessage ser ''assistant''
                       ''Failed to connect to server. Please ensure the backend is running.''
                       None None None None st1)
      in updateComplianceButtonState (st2\<lparr>isLoading := False, sendBtn_disabled := False\<rparr>))"

text \<open>
  A click reaches its handler only when the button is enabled; the Enter key and the
  sample questions call \<^verbatim>\<open>sendMessage\<close> whatever the state of the send button.
\<close>

definition click_sendBtn :: "(string \<Rightarrow> html) \<Rightarrow> app_state \<Rightarrow> app_state" where
  "click_sendBtn ser st = (if sendBtn_disabled st then st else sendMessage ser st)"

definition click_checkComplianceBtn :: "(string \<Rightarrow> html) \<Rightarrow> app_state \<Rightarrow> app_state" where
  "click_checkComplianceBtn ser st =
     (if checkComplianceBtn_disabled st then st else checkCompliance ser st)"

section \<open>Loading and deleting documents\<close>

definition loadDocuments :: "app_state \<Rightarrow> app_state" where
  "loadDocuments st = fetch Get_documents st"

text \<open>The payload is \<^verbatim>\<open>data.documents\<close>, which may be missing.\<close>

definition loadDocuments_resume :: "document list option response \<Rightarrow> app_state \<Rightarrow> app_state" where
  "loadDocuments_resume r st =
     (case r of
        Ok docs \<Rightarrow> renderDocumentList (st\<lparr>documents := list_or_empty docs\<rparr>)
      | Not_ok _ \<Rightarrow> st
      | Failed \<Rightarrow> st)"

text \<open>
  \<^verbatim>\<open>deleteDocument\<close> of \<^verbatim>\<open>src/txtai/script.js\<close>; \<open>confirmed\<close> is the answer to the
  \<^verbatim>\<open>confirm\<close> dialogue.
\<close>

definition deleteDocument :: "string \<Rightarrow> bool \<Rightarrow> app_state \<Rightarrow> app_state" where
  "deleteDocument fname confirmed st =
     (if \<not> confirmed then st else fetch (Post_delete fname) st)"

definition deleteDocument_resume :: "string \<Rightarrow> unit response \<Rightarrow> app_state \<Rightarrow> app_state" where
  "deleteDocument_resume fname r st =
     (case r of
        Ok _ \<Rightarrow>
          (let st1 = loadDocuments st
           in if selectedDocument st1 = Some fname then st1\<lparr>selectedDocument := None\<rparr> else st1)
      | Not_ok err \<Rightarrow> alert (''Error deleting document: '' @ or_else err ''Unknown error'') st
      | Failed \<Rightarrow> alert ''Error deleting document. See console for details.'' st)"

text \<open>
  The same handler in the second copy of the script (\<^verbatim>\<open>src/unnamed/part_001\<close>), which
  shows no alert on failure.
\<close>

definition deleteDocument_resume_part_001 ::
  "string \<Rightarrow> unit response \<Rightarrow> app_state \<Rightarrow> app_state" where
  "deleteDocument_resume_part_001 fname r st =
     (case r of
        Ok _ \<Rightarrow>
          (let st1 = loadDocuments st
           in if Set_has fname (selectedUserDocIds st1)
              then st1\<lparr>selectedUserDocIds := Set_delete fname (selectedUserDocIds st1)\<rparr>
              else st1)
      | Not_ok _ \<Rightarrow> st
      | Failed \<Rightarrow> st)"

text \<open>
  A page to start the examples from: the \<^verbatim>\<open>state\<close> literal of the script, every optional
  element present, and the buttons and checkboxes as the two render functions leave
  them while both listings are empty.
\<close>

definition initial_state :: app_state where
  "initial_state =
     \<lparr>documents = [], mahareraDocuments = [], selectedUserDocIds = [], selectedMahareraIds = [],
      selectedDocument = None, chatHistory = [], isLoading = False,
      app_settings = \<lparr>language = ''auto'', topK = 3, showSources = True\<rparr>,
      messageInput = [], sendBtn_disabled = False,
      selectAllUserDocs = Some \<lparr>checked = False, indeterminate = False, disabled = True\<rparr>,
      selectAllMaharera = \<lparr>checked = False, indeterminate = False, disabled = True\<rparr>,
      checkComplianceBtn_disabled = True, checkComplianceBtn_label = ''Check Compliance'',
      batchProcessBtn_disabled = Some True, chatMessages = [], typing_indicators = 0,
      welcome_message = True, alerts = [], fetch_log = []\<rparr>"

section \<open>The PDF report builder\<close>

text \<open>
  The report is drawn with the jsPDF library, which is not part of the repository. What
  the script needs from it is gathered in \<open>env\<close>: the page size of a new document, the
  line wrapping \<^verbatim>\<open>doc.splitTextToSize\<close> (which depends on the font size and weight set on
  the document, on the width and on the text), \<^verbatim>\<open>Number.prototype.toFixed(4)\<close>, and the
  date and time strings of the moment the report is built.
\<close>

record env =
  pageWidth :: real
  pageHeight :: real
  splitTextToSize :: "real \<Rightarrow> bool \<Rightarrow> real \<Rightarrow> string \<Rightarrow> string list"
  toFixed4 :: "real \<Rightarrow> string"
  dateStr :: string
  timeStr :: string

text \<open>
  Every \<^verbatim>\<open>doc.text\<close>, \<^verbatim>\<open>doc.rect\<close> and \<^verbatim>\<open>doc.line\<close> call is recorded with the page it
  lands on. A text call also records which part of the script made it: the helper
  \<^verbatim>\<open>addText\<close>, the helper \<^verbatim>\<open>addSection\<close>, or the body of the report function itself.
  Colours, the font family and the alignment option do not move anything and are not
  recorded.
\<close>

datatype origin = By_addText | By_addSection | By_report

datatype draw =
    Text origin nat real real string
  | Rect nat real real real real
  | Line nat real real real real

text \<open>
  The document and the cursor: \<open>yPos\<close> is the local variable of the report function,
  \<open>page\<close> the current page (the last one, while the content is laid out), \<open>fontSize\<close> and
  \<open>bold\<close> the font set on the document.
\<close>

record pdf =
  yPos :: real
  page :: nat
  fontSize :: real
  bold :: bool
  drawn :: "draw list"

text \<open>
  \<^verbatim>\<open>new jsPDF()\<close> followed by \<^verbatim>\<open>let yPos = 20\<close>; the library starts with one page and a
  normal font of size 16.
\<close>

definition new_jsPDF :: pdf where
  "new_jsPDF = \<lparr>yPos = 20, page = 1, fontSize = 16, bold = False, drawn = []\<rparr>"

definition margin :: real where
  "margin = 20"

definition maxWidth :: "env \<Rightarrow> real" where
  "maxWidth e = pageWidth e - margin * 2"

definition addPage :: "pdf \<Rightarrow> pdf" where
  "addPage d = d\<lparr>page := page d + 1\<rparr>"

definition doc_text :: "origin \<Rightarrow> string \<Rightarrow> real \<Rightarrow> real \<Rightarrow> pdf \<Rightarrow> pdf" where
  "doc_text org s x y d = d\<lparr>drawn := drawn d @ [Text org (page d) x y s]\<rparr>"

definition doc_rect :: "real \<Rightarrow> real \<Rightarrow> real \<Rightarrow> real \<Rightarrow> pdf \<Rightarrow> pdf" where
  "doc_rect x y w h d = d\<lparr>drawn := drawn d @ [Rect (page d) x y w h]\<rparr>"

definition doc_line :: "real \<Rightarrow> real \<Rightarrow> real \<Rightarrow> real \<Rightarrow> pdf \<Rightarrow> pdf" where
  "doc_line x1 y1 x2 y2 d = d\<lparr>drawn := drawn d @ [Line (page d) x1 y1 x2 y2]\<rparr>"

definition setFontSize :: "real \<Rightarrow> pdf \<Rightarrow> pdf" where
  "setFontSize fs d = d\<lparr>fontSize := fs\<rparr>"

text \<open>\<^verbatim>\<open>doc.setFont('helvetica', w)\<close>, with \<open>w\<close> either \<^verbatim>\<open>'bold'\<close> or \<^verbatim>\<open>'normal'\<close>.\<close>

definition setFont :: "bool \<Rightarrow> pdf \<Rightarrow> pdf" where
  "setFont isBold d = d\<lparr>bold := isBold\<rparr>"

definition move :: "real \<Rightarrow> pdf \<Rightarrow> pdf" where
  "move dy d = d\<lparr>yPos := yPos d + dy\<rparr>"

text \<open>The loop of \<^verbatim>\<open>addText\<close> over the wrapped lines.\<close>

fun addText_lines :: "env \<Rightarrow> real \<Rightarrow> string list \<Rightarrow> pdf \<Rightarrow> pdf" where
  "addText_lines e fs [] d = d"
| "addText_lines e fs (l # ls) d =
     (let d1 = (if yPos d > pageHeight e - 30 then (addPage d)\<lparr>yPos := 20\<rparr> else d);
          d2 = doc_text By_addText l margin (yPos d1) d1
      in addText_lines e fs ls (move (fs * 0.5) d2))"

definition addText :: "env \<Rightarrow> string \<Rightarrow> real \<Rightarrow> bool \<Rightarrow> pdf \<Rightarrow> pdf" where
  "addText e txt fs isBold d =
     (let d1 = setFont isBold (setFontSize fs d);
          lines = splitTextToSize e (fontSize d1) (bold d1) (maxWidth e) txt
      in move 2 (addText_lines e fs lines d1))"

definition addLine :: "env \<Rightarrow> pdf \<Rightarrow> pdf" where
  "addLine e d =
     (let d1 = (if yPos d > pageHeight e - 30 then (addPage d)\<lparr>yPos := 20\<rparr> else d)
      in move 8 (doc_line margin (yPos d1) (pageWidth e - margin) (yPos d1) d1))"

definition addSection :: "env \<Rightarrow> string \<Rightarrow> pdf \<Rightarrow> pdf" where
  "addSection e title d =
     (let d1 = move 5 d;
          d2 = (if yPos d1 > pageHeight e - 40 then (addPage d1)\<lparr>yPos := 20\<rparr> else d1);
          d3 = doc_rect margin (yPos d2 - 5) (maxWidth e) 10 d2;
          d4 = setFont True (setFontSize 12 d3);
          d5 = doc_text By_addSection title (margin + 3) (yPos d4 + 2) d4
      in move 15 d5)"

text \<open>One group of missing clauses of the executive summary.\<close>

definition missing_clauses :: "env \<Rightarrow> string \<Rightarrow> missing_item list option \<Rightarrow> real \<Rightarrow> pdf \<Rightarrow> pdf" where
  "missing_clauses e heading items gap d =
     (if items \<noteq> None \<and> length (the items) > 0 then
        move gap
          (fold (\<lambda>r. addText e (''  - '' @ mi_domain r @ '': '' @ mi_description r) 9 False)
             (the items) (addText e heading 10 True d))
      else d)"

definition executive_summary :: "env \<Rightarrow> compliance_summary option \<Rightarrow> pdf \<Rightarrow> pdf" where
  "executive_summary e summary d =
     (case summary of
        None \<Rightarrow> d
      | Some cs \<Rightarrow>
          (let status = (if is_compliant cs then ''COMPLIANT'' else ''NON-COMPLIANT'');
               d1 = addText e ''Overall Status: '' 11 True d;
               d2 = move (- 7) d1;
               d3 = doc_text By_report status (margin + 32) (yPos d2) d2;
               d4 = move 7 d3;
               d5 = addText e (''Required Clauses Found: '' @ show_count (compliant_count cs) @ ''/''
                      @ show_count (total_checks cs)) 10 False d4;
               d6 = move 3 d5
           in if \<not> is_compliant cs then
                missing_clauses e ''MEDIUM PRIORITY MISSING:'' (medium_missing cs) 0
                  (missing_clauses e ''HIGH PRIORITY MISSING:'' (high_missing cs) 3
                    (missing_clauses e ''CRITICAL MISSING CLAUSES:'' (critical_missing cs) 3 d6))
              else
                addText e ''All required clauses have been verified as present in the document.''
                  10 False d6))"

text \<open>The text of the excerpt line of a red flag in the report.\<close>

definition excerpt_line :: "string \<Rightarrow> string" where
  \<open>excerpt_line excerpt = ''Excerpt: "'' @ substring0 150 excerpt @ ''..."''\<close>

text \<open>The body of the \<^verbatim>\<open>forEach\<close> over the red flags; \<open>idx\<close> counts from 0.\<close>

definition red_flag_block :: "env \<Rightarrow> nat \<Rightarrow> red_flag \<Rightarrow> pdf \<Rightarrow> pdf" where
  "red_flag_block e idx flag d =
     (let d1 = addText e (''Red Flag #'' @ string_of_nat (idx + 1) @ '': ['' @ severity flag @ ''] ''
                 @ rule_id flag) 10 True d;
          d2 = addText e (''Domain: '' @ rf_domain flag) 9 False d1;
          d3 = addText e (''Issue: '' @ reason flag) 9 False d2;
          d4 = (case clause_source flag of
                  None \<Rightarrow> d3
                | Some src \<Rightarrow>
                    if truthy (cs_filename src) then
                      (let d31 = addText e (''Found in: '' @ the (cs_filename src)) 9 False d3
                       in if truthy (cs_excerpt src)
                          then addText e (excerpt_line (the (cs_excerpt src))) 8 False d31
                          else d31)
                    else d3)
      in move 3 d4)"

text \<open>A \<^verbatim>\<open>forEach\<close> whose callback takes the element and its index.\<close>

fun forEach_idx :: "(nat \<Rightarrow> 'a \<Rightarrow> pdf \<Rightarrow> pdf) \<Rightarrow> nat \<Rightarrow> 'a list \<Rightarrow> pdf \<Rightarrow> pdf" where
  "forEach_idx f idx [] d = d"
| "forEach_idx f idx (x # xs) d = forEach_idx f (idx + 1) xs (f idx x d)"

definition count_severity :: "string \<Rightarrow> red_flag list \<Rightarrow> nat" where
  "count_severity sev fs = length (filter (\<lambda>f. severity f = sev) fs)"

definition red_flag_analysis :: "env \<Rightarrow> red_flag list option \<Rightarrow> pdf \<Rightarrow> pdf" where
  "red_flag_analysis e redFlags d =
     (if redFlags \<noteq> None \<and> length (the redFlags) > 0 then
        (let fs = the redFlags;
             d1 = addText e (''Total Red Flags Detected: '' @ string_of_nat (length fs)) 11 True d;
             d2 = addText e (''  Critical: '' @ string_of_nat (count_severity ''CRITICAL'' fs)
                    @ ''  |  High: '' @ string_of_nat (count_severity ''HIGH'' fs)
                    @ ''  |  Medium: '' @ string_of_nat (count_severity ''MEDIUM'' fs)
                    @ ''  |  Low: '' @ string_of_nat (count_severity ''LOW'' fs)) 9 False d1
         in forEach_idx (red_flag_block e) 0 fs (move 5 d2))
      else
        addText e ''No red flags detected in the analyzed document sections.'' 10 False d)"

definition source_block :: "env \<Rightarrow> nat \<Rightarrow> source \<Rightarrow> pdf \<Rightarrow> pdf" where
  "source_block e idx src d =
     addText e (''    Section: ''
         @ or_else (src_section src) (''Chunk '' @ string_of_nat (src_chunk_idx src + 1))
         @ '' | Score: '' @ toFixed4 e (src_score src)) 9 False
       (addText e (''['' @ string_of_nat (idx + 1) @ ''] '' @ src_filename src) 10 True d)"

definition sources_section :: "env \<Rightarrow> source list option \<Rightarrow> pdf \<Rightarrow> pdf" where
  "sources_section e srcs d =
     (if srcs \<noteq> None \<and> length (the srcs) > 0 then
        forEach_idx (source_block e) 0 (the srcs) (addSection e ''DOCUMENT SOURCES REFERENCED'' d)
      else d)"

definition disclaimer :: string where
  "disclaimer =
     ''This report is generated by an AI-powered compliance analysis system for informational ''
     @ ''purposes only. It does not constitute legal advice. Manual review by a qualified legal ''
     @ ''professional is strongly recommended. The system analyzes only the sections retrieved; ''
     @ ''some clauses may be missed. For official compliance verification, please consult with a ''
     @ ''registered legal professional or contact MahaRERA directly.''"

definition disclaimer_line :: "env \<Rightarrow> string \<Rightarrow> pdf \<Rightarrow> pdf" where
  "disclaimer_line e l d =
     (let d1 = (if yPos d > pageHeight e - 20 then (addPage d)\<lparr>yPos := 20\<rparr> else d)
      in move 4 (doc_text By_report l margin (yPos d1) d1))"

text \<open>The footer pass: \<^verbatim>\<open>doc.setPage(i)\<close> for every page, then back on the last page.\<close>

definition footers :: "env \<Rightarrow> string \<Rightarrow> pdf \<Rightarrow> pdf" where
  "footers e label d =
     (let pageCount = page d
      in fold (\<lambda>i dd.
             doc_text By_report label margin (pageHeight e - 10)
               (doc_text By_report
                  (''Page '' @ string_of_nat i @ '' of '' @ string_of_nat pageCount)
                  (pageWidth e / 2) (pageHeight e - 10)
                  (setFontSize 8 (dd\<lparr>page := i\<rparr>))))
           [1..<pageCount + 1] d)"

definition generateComplianceReport :: "env \<Rightarrow> report_data \<Rightarrow> pdf" where
  "generateComplianceReport e data =
     (let d0 = new_jsPDF;
          d1 = doc_rect 0 0 (pageWidth e) 35 d0;
          d2 = doc_text By_report ''REAL ESTATE COMPLIANCE REPORT'' (pageWidth e / 2) 15
                 (setFont True (setFontSize 20 d1));
          d3 = doc_text By_report (''Generated: '' @ dateStr e @ '' at '' @ timeStr e)
                 (pageWidth e / 2) 25 (setFont False (setFontSize 10 d2));
          d4 = d3\<lparr>yPos := 50\<rparr>;
          d5 = executive_summary e (rd_complianceSummary data) (addSection e ''EXECUTIVE SUMMARY'' d4);
          d6 = red_flag_analysis e (rd_redFlags data) (addSection e ''RED FLAG ANALYSIS'' d5);
          d7 = addText e (rd_content data) 10 False (addSection e ''AI ANALYSIS & RECOMMENDATIONS'' d6);
          d8 = sources_section e (rd_sources data) d7;
          d9 = setFontSize 8 (addSection e ''DISCLAIMER'' d8);
          d10 = fold (disclaimer_line e)
                  (splitTextToSize e (fontSize d9) (bold d9) (maxWidth e) disclaimer) d9
      in footers e ''CloverAI - MahaRERA Compliance System'' d10)"

text \<open>The texts among recorded calls, in order, and the texts drawn so far.\<close>

definition draw_texts :: "draw list \<Rightarrow> string list" where
  "draw_texts ops = concat (map (\<lambda>op. case op of Text _ _ _ _ s \<Rightarrow> [s] | _ \<Rightarrow> []) ops)"

definition texts :: "pdf \<Rightarrow> string list" where
  "texts d = draw_texts (drawn d)"

text \<open>A later state of a document has the texts of an earlier one and then more.\<close>

definition texts_le :: "pdf \<Rightarrow> pdf \<Rightarrow> bool" where
  "texts_le d d' = (\<exists>ts. texts d' = texts d @ ts)"

text \<open>
  What the printable limit asks of a recorded call: a line drawn by \<^verbatim>\<open>addText\<close> lies at
  or above \<open>pageHeight - 30\<close>, and the title drawn by \<^verbatim>\<open>addSection\<close>, two units below the
  cursor that was checked against \<open>pageHeight - 40\<close>, at or above \<open>pageHeight - 38\<close>.
\<close>

definition within_limit :: "env \<Rightarrow> draw \<Rightarrow> bool" where
  "within_limit e op =
     (case op of
        Text By_addText p x y s \<Rightarrow> y \<le> pageHeight e - 30
      | Text By_addSection p x y s \<Rightarrow> y \<le> pageHeight e - 38
      | _ \<Rightarrow> True)"

definition all_within :: "env \<Rightarrow> pdf \<Rightarrow> bool" where
  "all_within e d = list_all (within_limit e) (drawn d)"

section \<open>Batch results\<close>

record batch_summary =
  total_documents :: nat
  processed :: nat
  documents_with_issues :: nat
  total_red_flags :: nat
  total_critical :: nat
  total_missing_clauses :: nat

text \<open>One entry of \<^verbatim>\<open>results\<close>; \<^verbatim>\<open>error\<close> is set by the backend on an entry that failed.\<close>

record batch_result =
  br_filename :: string
  br_status :: string
  br_error :: "string field"
  br_red_flags :: "red_flag list option"
  br_compliance_summary :: "compliance_summary option"

definition hasIssues :: "batch_result \<Rightarrow> bool" where
  "hasIssues r =
     ((br_red_flags r \<noteq> None \<and> length (the (br_red_flags r)) > 0)
      \<or> (br_compliance_summary r \<noteq> None \<and> \<not> is_compliant (the (br_compliance_summary r))))"

definition isCritical :: "batch_result \<Rightarrow> bool" where
  "isCritical r =
     (br_red_flags r \<noteq> None \<and> list_ex (\<lambda>f. severity f = ''CRITICAL'') (the (br_red_flags r)))"

text \<open>\<^verbatim>\<open>result.red_flags?.length || 0\<close> and the two clause counts read the same way.\<close>

definition rfCount :: "batch_result \<Rightarrow> nat" where
  "rfCount r = (case br_red_flags r of None \<Rightarrow> 0 | Some fs \<Rightarrow> length fs)"

definition compliant_of :: "batch_result \<Rightarrow> nat" where
  "compliant_of r =
     (case br_compliance_summary r of None \<Rightarrow> 0 | Some cs \<Rightarrow> count_or_0 (compliant_count cs))"

definition total_of :: "batch_result \<Rightarrow> nat" where
  "total_of r =
     (case br_compliance_summary r of None \<Rightarrow> 0 | Some cs \<Rightarrow> count_or_0 (total_checks cs))"

subsection \<open>On screen (\<^verbatim>\<open>displayBatchResults\<close>)\<close>

text \<open>The content of the \<^verbatim>\<open>doc-stats\<close> element of one entry; the line break inside the text is a space.\<close>

definition doc_stats_html :: "batch_result \<Rightarrow> html" where
  \<open>doc_stats_html r =
     (if br_status r = ''error'' then
        ''<span style="color: #dc2626;">Error: '' @ show_string (br_error r) @ ''</span>''
      else
        ''Red Flags: '' @ string_of_nat (rfCount r) @ '' | Clauses Found: ''
        @ string_of_nat (compliant_of r) @ ''/'' @ string_of_nat (total_of r))\<close>

definition batch_doc_result_html :: "batch_result \<Rightarrow> html" where
  \<open>batch_doc_result_html r =
     (let className = (if isCritical r then ''critical''
                       else if hasIssues r then ''has-issues'' else [])
      in ''<div class="batch-doc-result '' @ className @ ''">''
         @ ''<div class="doc-name">'' @ br_filename r @ ''</div>''
         @ ''<div class="doc-stats">'' @ doc_stats_html r @ ''</div>''
         @ ''</div>'')\<close>

text \<open>\<^verbatim>\<open>results.map(...).join('')\<close>.\<close>

definition batch_doc_results_html :: "batch_result list \<Rightarrow> html" where
  "batch_doc_results_html results = concat (map batch_doc_result_html results)"

text \<open>One card of the summary grid; \<open>cls\<close> is the whole class attribute.\<close>

definition summary_card_html :: "string \<Rightarrow> nat \<Rightarrow> string \<Rightarrow> html" where
  \<open>summary_card_html cls n label =
     ''<div class="'' @ cls @ ''">''
     @ ''<div class="count">'' @ string_of_nat n @ ''</div>''
     @ ''<div class="label">'' @ label @ ''</div></div>''\<close>

definition resultsHTML :: "batch_summary \<Rightarrow> batch_result list \<Rightarrow> html" where
  \<open>resultsHTML summary results =
     ''<div class="batch-results-container">''
     @ ''<div class="batch-results-header">Batch Compliance Report - ''
     @ string_of_nat (total_documents summary) @ '' Documents Analyzed</div>''
     @ ''<div class="batch-summary-grid">''
     @ summary_card_html ''batch-summary-card'' (processed summary) ''Processed''
     @ summary_card_html
         (''batch-summary-card ''
          @ (if documents_with_issues summary > 0 then ''warning'' else ''success''))
         (documents_with_issues summary) ''With Issues''
     @ summary_card_html
         (''batch-summary-card '' @ (if total_critical summary > 0 then ''critical'' else []))
         (total_red_flags summary) ''Red Flags''
     @ summary_card_html
         (''batch-summary-card ''
          @ (if total_missing_clauses summary > 0 then ''warning'' else ''success''))
         (total_missing_clauses summary) ''Missing Clauses''
     @ ''</div>''
     @ ''<div class="batch-doc-results">'' @ batch_doc_results_html results @ ''</div>''
     @ ''</div>''\<close>

subsection \<open>In the PDF (\<^verbatim>\<open>generateBatchPdfReport\<close>)\<close>

definition checkPageBreak :: "env \<Rightarrow> real \<Rightarrow> pdf \<Rightarrow> pdf" where
  "checkPageBreak e needed d =
     (if yPos d + needed > pageHeight e - 30 then (addPage d)\<lparr>yPos := 20\<rparr> else d)"

text \<open>The first red flags of an entry, one line each, from height \<open>rfY\<close> down; the result carries the next height.\<close>

fun list_red_flags :: "red_flag list \<Rightarrow> real \<times> pdf \<Rightarrow> real \<times> pdf" where
  "list_red_flags [] (rfY, d) = (rfY, d)"
| "list_red_flags (rf # rfs) (rfY, d) =
     list_red_flags rfs
       (rfY + 5,
        doc_text By_report
          (''  - ['' @ severity rf @ ''] '' @ rule_id rf @ '': '' @ substring0 60 (reason rf)
           @ ''...'') (margin + 5) rfY d)"

text \<open>The body of the \<^verbatim>\<open>forEach\<close> over the results; \<open>idx\<close> counts from 0.\<close>

definition batch_entry :: "env \<Rightarrow> nat \<Rightarrow> batch_result \<Rightarrow> pdf \<Rightarrow> pdf" where
  "batch_entry e idx r d =
     (let d1 = checkPageBreak e 50 d;
          d2 = doc_line margin (yPos d1) margin (yPos d1 + 30) d1;
          d3 = doc_text By_report (string_of_nat (idx + 1) @ ''. '' @ br_filename r)
                 (margin + 5) (yPos d2 + 5) (setFont True (setFontSize 11 d2));
          d4 = (if br_status r = ''error'' then
                  doc_text By_report (''Error: '' @ show_string (br_error r))
                    (margin + 5) (yPos d3 + 12) (setFontSize 9 d3)
                else
                  (let d31 = doc_text By_report (''Red Flags: '' @ string_of_nat (rfCount r))
                               (margin + 5) (yPos d3 + 12) (setFont False (setFontSize 9 d3));
                       d32 = doc_text By_report
                               (''Required Clauses: '' @ string_of_nat (compliant_of r) @ ''/''
                                @ string_of_nat (total_of r))
                               (margin + 50) (yPos d31 + 12) d31
                   in if br_red_flags r \<noteq> None \<and> length (the (br_red_flags r)) > 0 then
                        (let fs = the (br_red_flags r);
                             (rfY, d33) = list_red_flags (take 3 fs) (yPos d32 + 18, d32)
                         in if length fs > 3 then
                              doc_text By_report
                                (''  ... and '' @ string_of_nat (length fs - 3) @ '' more'')
                                (margin + 5) rfY d33
                            else d33)
                      else d32))
      in move 40 d4)"

definition batch_disclaimer :: string where
  "batch_disclaimer =
     ''This batch report is generated by an AI-powered compliance system for informational ''
     @ ''purposes only. Manual review by a qualified legal professional is recommended.''"

text \<open>
  The report function in three parts: the title, the executive summary and the heading
  of the document-wise analysis; the loop over the results; the disclaimer and the
  footers.
\<close>

definition batch_header :: "env \<Rightarrow> batch_summary \<Rightarrow> pdf" where
  "batch_header e summary =
     (let d0 = new_jsPDF;
          d1 = doc_rect 0 0 (pageWidth e) 40 d0;
          d2 = doc_text By_report ''BATCH COMPLIANCE REPORT'' (pageWidth e / 2) 18
                 (setFont True (setFontSize 20 d1));
          d3 = doc_text By_report (string_of_nat (total_documents summary) @ '' Documents Analyzed'')
                 (pageWidth e / 2) 28 (setFont False (setFontSize 10 d2));
          d4 = doc_text By_report (''Generated: '' @ dateStr e @ '' at '' @ timeStr e)
                 (pageWidth e / 2) 35 d3;
          d5 = d4\<lparr>yPos := 55\<rparr>;
          d6 = doc_rect margin (yPos d5 - 5) (maxWidth e) 35 d5;
          d7 = doc_text By_report ''EXECUTIVE SUMMARY'' (margin + 5) (yPos d6 + 5)
                 (setFont True (setFontSize 14 d6));
          d8 = move 15 (setFont False (setFontSize 10 d7));
          d9 = move 6 (doc_text By_report
                 (''Documents Processed: '' @ string_of_nat (processed summary) @ ''/''
                  @ string_of_nat (total_documents summary)) (margin + 5) (yPos d8) d8);
          d10 = move 6 (doc_text By_report
                  (''Documents with Issues: '' @ string_of_nat (documents_with_issues summary))
                  (margin + 5) (yPos d9) d9);
          d11 = move 6 (doc_text By_report
                  (''Total Red Flags: '' @ string_of_nat (total_red_flags summary) @ '' (''
                   @ string_of_nat (total_critical summary) @ '' Critical)'')
                  (margin + 5) (yPos d10) d10);
          d12 = move 20 (doc_text By_report
                  (''Missing Required Clauses: '' @ string_of_nat (total_missing_clauses summary))
                  (margin + 5) (yPos d11) d11);
          d13 = doc_rect margin (yPos d12 - 5) (maxWidth e) 10 d12
      in move 15 (doc_text By_report ''DOCUMENT-WISE ANALYSIS'' (margin + 3) (yPos d13 + 2)
           (setFont True (setFontSize 12 d13))))"

definition batch_footer :: "env \<Rightarrow> pdf \<Rightarrow> pdf" where
  "batch_footer e d15 =
     (let d16 = move 10 (checkPageBreak e 40 d15);
          d17 = setFontSize 8 (doc_rect margin (yPos d16 - 5) (maxWidth e) 25 d16);
          d18 = forEach_idx (\<lambda>i l dd. doc_text By_report l (margin + 5) (yPos dd + real i * 4) dd) 0
                  (splitTextToSize e (fontSize d17) (bold d17) (maxWidth e - 10) batch_disclaimer) d17
      in footers e ''CloverAI - Batch Compliance Report'' d18)"

definition generateBatchPdfReport :: "env \<Rightarrow> batch_summary \<Rightarrow> batch_result list \<Rightarrow> pdf" where
  "generateBatchPdfReport e summary results =
     batch_footer e (forEach_idx (batch_entry e) 0 results (batch_header e summary))"

text \<open>
  Where the cursor and the page stand after one entry that started at \<open>(y, p)\<close>: the
  page-break check for 50 units, then 40 units down.
\<close>

definition entry_layout :: "env \<Rightarrow> real \<times> nat \<Rightarrow> real \<times> nat" where
  "entry_layout e yp =
     (case yp of (y, p) \<Rightarrow> if y + 50 > pageHeight e - 30 then (20 + 40, p + 1) else (y + 40, p))"

text \<open>What one entry draws when the cursor stands at \<open>y\<close> on page \<open>p\<close>.\<close>

definition blank_at :: "real \<times> nat \<Rightarrow> pdf" where
  "blank_at yp = \<lparr>yPos = fst yp, page = snd yp, fontSize = 12, bold = True, drawn = []\<rparr>"

text \<open>What \<^term>\<open>list_red_flags\<close> draws from height \<open>y\<close> on page \<open>p\<close>.\<close>

definition red_flag_lines :: "red_flag list \<Rightarrow> real \<Rightarrow> nat \<Rightarrow> draw list" where
  "red_flag_lines fs y p = drawn (snd (list_red_flags fs (y, blank_at (0, p))))"

definition entry_drawn :: "env \<Rightarrow> nat \<Rightarrow> batch_result \<Rightarrow> real \<times> nat \<Rightarrow> draw list" where
  "entry_drawn e idx r yp = drawn (batch_entry e idx r (blank_at yp))"

section \<open>Example data\<close>

definition doc_a :: document where
  "doc_a = \<lparr>filename = ''a.pdf'', char_count = 1200, chunks = 3\<rparr>"

definition doc_b :: document where
  "doc_b = \<lparr>filename = ''b.pdf'', char_count = 800, chunks = 2\<rparr>"

definition reg_r :: maharera_document where
  "reg_r = \<lparr>m_filename = ''r.pdf'', m_title = Some ''Circular 1'', m_doc_type = ''circulars'',
            m_date = None, m_char_count = 500\<rparr>"

text \<open>
  A page with two user documents and one regulation listed, the regulation selected, a
  question typed into the input field, and the buttons as
  \<^verbatim>\<open>updateComplianceButtonState\<close> sets them.
\<close>

definition ready_state :: app_state where
  "ready_state =
     updateComplianceButtonState
       (initial_state\<lparr>documents := [doc_a, doc_b], mahareraDocuments := [reg_r],
                      selectedMahareraIds := [''r.pdf''],
                      messageInput := ''Is the carpet area stated?''\<rparr>)"

text \<open>
  A clause source, a red flag that has it, a summary with three clauses missing, the decision of a
  compliance check and the decision of a free-text query.
\<close>

definition clause_1 :: clause_source where
  "clause_1 =
     \<lparr>cs_filename = Some ''a.pdf'', cs_section = None,
      cs_excerpt = Some ''The promoter shall hand over possession.''\<rparr>"

definition flag_1 :: red_flag where
  "flag_1 =
     \<lparr>severity = ''CRITICAL'', rule_id = ''POSSESSION_DATE'', rf_domain = ''possession'',
      reason = ''No possession date is stated.'', clause_source = Some clause_1,
      authority_support = None, has_authority_support = None\<rparr>"

definition summary_1 :: compliance_summary where
  "summary_1 =
     \<lparr>is_compliant = False, compliant_count = Val 2, total_checks = Val 5,
      critical_missing = Some [\<lparr>mi_domain = ''possession'', mi_description = ''Possession date''\<rparr>],
      high_missing = Some [\<lparr>mi_domain = ''payment'', mi_description = ''Payment schedule''\<rparr>],
      medium_missing = Some [\<lparr>mi_domain = ''parking'', mi_description = ''Parking allotment''\<rparr>]\<rparr>"

definition decision_check :: decision where
  "decision_check = \<lparr>compliance_check = Some True, is_red_flag = Some True\<rparr>"

definition decision_query :: decision where
  "decision_query = \<lparr>compliance_check = None, is_red_flag = Some True\<rparr>"

text \<open>
  An A4 page in millimetres, the format of \<^verbatim>\<open>new jsPDF()\<close>, with a wrapping that puts
  every character of a text on a line of its own, and a report whose answer is 60
  characters long.
\<close>

definition env_a4 :: env where
  "env_a4 =
     \<lparr>pageWidth = 210, pageHeight = 297,
      splitTextToSize = (\<lambda>fs b w t. map (\<lambda>c. [c]) t),
      toFixed4 = (\<lambda>x. ''0.9000''),
      dateStr = ''2 November 2026'', timeStr = ''10:00''\<rparr>"

definition report_1 :: report_data where
  "report_1 =
     \<lparr>rd_content = replicate 60 CHR ''x'', rd_redFlags = Some [flag_1],
      rd_decision = Some decision_check, rd_complianceSummary = Some summary_1,
      rd_sources = None\<rparr>"

text \<open>A batch of three results, the second of which failed.\<close>

definition result_ok_1 :: batch_result where
  "result_ok_1 =
     \<lparr>br_filename = ''a.pdf'', br_status = ''success'', br_error = Undefined,
      br_red_flags = Some [flag_1], br_compliance_summary = Some summary_1\<rparr>"

definition result_err :: batch_result where
  "result_err =
     \<lparr>br_filename = ''b.pdf'', br_status = ''error'', br_error = Val ''OCR failed'',
      br_red_flags = None, br_compliance_summary = None\<rparr>"

definition result_ok_2 :: batch_result where
  "result_ok_2 =
     \<lparr>br_filename = ''c.pdf'', br_status = ''success'', br_error = Undefined,
      br_red_flags = Some [], br_compliance_summary = None\<rparr>"

text \<open>The same page with a wrapping that leaves every text on one line.\<close>

definition env_one_line :: env where
  "env_one_line = env_a4\<lparr>splitTextToSize := (\<lambda>fs b w t. [t])\<rparr>"

definition batch_summary_1 :: batch_summary where
  "batch_summary_1 =
     \<lparr>total_documents = 3, processed = 2, documents_with_issues = 1, total_red_flags = 1,
      total_critical = 1, total_missing_clauses = 3\<rparr>"


text \<open>
  A clause source whose excerpt is 200 characters long, a red flag that has it, and the
  data of a report with the two example flags.
\<close>

definition clause_long :: clause_source where
  "clause_long =
     \<lparr>cs_filename = Some ''b.pdf'', cs_section = Some ''Clause 4'',
      cs_excerpt = Some (replicate 200 CHR ''x'')\<rparr>"

definition flag_long :: red_flag where
  "flag_long =
     \<lparr>severity = ''HIGH'', rule_id = ''CARPET_AREA'', rf_domain = ''area'',
      reason = ''Carpet area is not defined.'', clause_source = Some clause_long,
      authority_support = None, has_authority_support = None\<rparr>"

definition report_2 :: report_data where
  "report_2 =
     \<lparr>rd_content = ''Review the agreement.'', rd_redFlags = Some [flag_1, flag_long],
      rd_decision = Some decision_check, rd_complianceSummary = None, rd_sources = None\<rparr>"
section \<open>Properties of the selection store\<close>

text \<open>
  The functions that refresh the buttons and checkboxes leave the listings and the
  selection sets alone.
\<close>

lemma sel_updateComplianceButtonState [simp]:
  "selectedUserDocIds (updateComplianceButtonState st) = selectedUserDocIds st"
  "selectedMahareraIds (updateComplianceButtonState st) = selectedMahareraIds st"
  "documents (updateComplianceButtonState st) = documents st"
  "mahareraDocuments (updateComplianceButtonState st) = mahareraDocuments st"
  by (simp_all add: updateComplianceButtonState_def Let_def split: option.splits)

lemma sel_updateSelectAllUserDocsState [simp]:
  "selectedUserDocIds (updateSelectAllUserDocsState st) = selectedUserDocIds st"
  "selectedMahareraIds (updateSelectAllUserDocsState st) = selectedMahareraIds st"
  "documents (updateSelectAllUserDocsState st) = documents st"
  "mahareraDocuments (updateSelectAllUserDocsState st) = mahareraDocuments st"
  by (simp_all add: updateSelectAllUserDocsState_def Let_def split: option.splits)

lemma sel_updateSelectAllState [simp]:
  "selectedUserDocIds (updateSelectAllState st) = selectedUserDocIds st"
  "selectedMahareraIds (updateSelectAllState st) = selectedMahareraIds st"
  "documents (updateSelectAllState st) = documents st"
  "mahareraDocuments (updateSelectAllState st) = mahareraDocuments st"
  by (simp_all add: updateSelectAllState_def Let_def)

lemma selectedUserDocIds_toggle:
  "selectedUserDocIds (toggleUserDocSelection f st) =
     (if Set_has f (selectedUserDocIds st) then Set_delete f (selectedUserDocIds st)
      else Set_add f (selectedUserDocIds st))"
  by (simp add: toggleUserDocSelection_def)

lemma selectedMahareraIds_toggle:
  "selectedMahareraIds (toggleMahareraSelection f st) =
     (if Set_has f (selectedMahareraIds st) then Set_delete f (selectedMahareraIds st)
      else Set_add f (selectedMahareraIds st))"
  by (simp add: toggleMahareraSelection_def)

lemma listing_toggle [simp]:
  "documents (toggleUserDocSelection f st) = documents st"
  "mahareraDocuments (toggleMahareraSelection f st) = mahareraDocuments st"
  by (simp_all add: toggleUserDocSelection_def toggleMahareraSelection_def)

text \<open>
  A toggle removes a member and adds a non-member; it keeps the list free of
  repetitions, so that the size the script reads is the number of selected filenames.
\<close>

lemma set_toggle:
  "set (if Set_has f s then Set_delete f s else Set_add f s) =
     (if f \<in> set s then set s - {f} else insert f (set s))"
  by (auto simp: Set_has_def Set_delete_def Set_add_def)

lemma distinct_toggle:
  "distinct s \<Longrightarrow> distinct (if Set_has f s then Set_delete f s else Set_add f s)"
  by (auto simp: Set_has_def Set_delete_def Set_add_def)

lemma Set_size_card: "distinct s \<Longrightarrow> Set_size s = card (set s)"
  by (simp add: Set_size_def distinct_card)

lemmas ex_defs = initial_state_def doc_a_def doc_b_def reg_r_def ready_state_def flag_1_def
  summary_1_def decision_check_def decision_query_def

lemmas sel_defs = Set_has_def Set_add_def Set_delete_def Set_size_def Set_clear_def Array_from_def

text \<open>
  Claim C2, as amended. Neither toggle consults the listing. For both categories,
  toggling a filename flips its membership in the selection set and leaves the membership
  of every other filename as it was, whether or not the filename is listed; and when the
  selection is within the listing and the toggled filename is listed, the selection stays
  within the listing.
\<close>

theorem toggle_flips_membership:
  "(f \<in> set (selectedUserDocIds (toggleUserDocSelection f st))) = (f \<notin> set (selectedUserDocIds st))
   \<and> (g \<noteq> f \<longrightarrow> (g \<in> set (selectedUserDocIds (toggleUserDocSelection f st)))
                    = (g \<in> set (selectedUserDocIds st)))
   \<and> (set (selectedUserDocIds st) \<subseteq> filename ` set (documents st) \<and> f \<in> filename ` set (documents st)
        \<longrightarrow> set (selectedUserDocIds (toggleUserDocSelection f st))
              \<subseteq> filename ` set (documents (toggleUserDocSelection f st)))
   \<and> (f \<in> set (selectedMahareraIds (toggleMahareraSelection f st))) = (f \<notin> set (selectedMahareraIds st))
   \<and> (g \<noteq> f \<longrightarrow> (g \<in> set (selectedMahareraIds (toggleMahareraSelection f st)))
                    = (g \<in> set (selectedMahareraIds st)))
   \<and> (set (selectedMahareraIds st) \<subseteq> m_filename ` set (mahareraDocuments st)
        \<and> f \<in> m_filename ` set (mahareraDocuments st)
        \<longrightarrow> set (selectedMahareraIds (toggleMahareraSelection f st))
              \<subseteq> m_filename ` set (mahareraDocuments (toggleMahareraSelection f st)))"
  by (auto simp: selectedUserDocIds_toggle selectedMahareraIds_toggle set_toggle split: if_splits)

text \<open>
  Claim C2, witness: with \<^verbatim>\<open>a.pdf\<close> and \<^verbatim>\<open>b.pdf\<close> listed and nothing selected, toggling
  \<^verbatim>\<open>a.pdf\<close> selects it and not \<^verbatim>\<open>b.pdf\<close>; likewise for the regulation \<^verbatim>\<open>r.pdf\<close>.
\<close>

theorem toggle_flips_membership_witness:
  "''b.pdf'' \<noteq> ''a.pdf''
   \<and> set (selectedUserDocIds (initial_state\<lparr>documents := [doc_a, doc_b]\<rparr>))
        \<subseteq> filename ` set (documents (initial_state\<lparr>documents := [doc_a, doc_b]\<rparr>))
   \<and> ''a.pdf'' \<in> filename ` set (documents (initial_state\<lparr>documents := [doc_a, doc_b]\<rparr>))
   \<and> set (selectedMahareraIds (initial_state\<lparr>mahareraDocuments := [reg_r]\<rparr>))
        \<subseteq> m_filename ` set (mahareraDocuments (initial_state\<lparr>mahareraDocuments := [reg_r]\<rparr>))
   \<and> ''r.pdf'' \<in> m_filename ` set (mahareraDocuments (initial_state\<lparr>mahareraDocuments := [reg_r]\<rparr>))
   \<and> ''a.pdf'' \<in> set (selectedUserDocIds
        (toggleUserDocSelection ''a.pdf'' (initial_state\<lparr>documents := [doc_a, doc_b]\<rparr>)))
   \<and> ''b.pdf'' \<notin> set (selectedUserDocIds
        (toggleUserDocSelection ''a.pdf'' (initial_state\<lparr>documents := [doc_a, doc_b]\<rparr>)))
   \<and> ''r.pdf'' \<in> set (selectedMahareraIds
        (toggleMahareraSelection ''r.pdf'' (initial_state\<lparr>mahareraDocuments := [reg_r]\<rparr>)))"
  using toggle_flips_membership [of "''a.pdf''" "initial_state\<lparr>documents := [doc_a, doc_b]\<rparr>" "''b.pdf''"]
        toggle_flips_membership [of "''r.pdf''" "initial_state\<lparr>mahareraDocuments := [reg_r]\<rparr>" "''b.pdf''"]
  by (simp add: ex_defs)

text \<open>
  Claim C2 as stated fails: toggling \<^verbatim>\<open>ghost.pdf\<close>, which neither listing holds, is not a
  no-op. The filename is stored in the selection set of either category.
\<close>

theorem toggle_unlisted_counterexample:
  "''ghost.pdf'' \<notin> filename ` set (documents (initial_state\<lparr>documents := [doc_a]\<rparr>))
   \<and> selectedUserDocIds (initial_state\<lparr>documents := [doc_a]\<rparr>) = []
   \<and> selectedUserDocIds (toggleUserDocSelection ''ghost.pdf'' (initial_state\<lparr>documents := [doc_a]\<rparr>))
       = [''ghost.pdf'']
   \<and> ''ghost.pdf'' \<notin> m_filename ` set (mahareraDocuments (initial_state\<lparr>mahareraDocuments := [reg_r]\<rparr>))
   \<and> selectedMahareraIds (initial_state\<lparr>mahareraDocuments := [reg_r]\<rparr>) = []
   \<and> selectedMahareraIds
        (toggleMahareraSelection ''ghost.pdf'' (initial_state\<lparr>mahareraDocuments := [reg_r]\<rparr>))
       = [''ghost.pdf'']"
  by (simp add: selectedUserDocIds_toggle selectedMahareraIds_toggle ex_defs sel_defs)

text \<open>
  Claim C9. For both categories, every filename and every starting selection, toggling
  the same filename twice gives a selection set with the original members. (The order
  in which \<^verbatim>\<open>Array.from\<close> lists them may change: a member that is removed and added
  again moves to the end.)
\<close>

theorem double_toggle_identity:
  "set (selectedUserDocIds (toggleUserDocSelection f (toggleUserDocSelection f st)))
     = set (selectedUserDocIds st)
   \<and> set (selectedMahareraIds (toggleMahareraSelection f (toggleMahareraSelection f st)))
     = set (selectedMahareraIds st)"
  by (auto simp: selectedUserDocIds_toggle selectedMahareraIds_toggle Set_has_def Set_delete_def
        Set_add_def)

text \<open>
  Claim C9, witness: with \<^verbatim>\<open>a.pdf\<close> and \<^verbatim>\<open>b.pdf\<close> selected, toggling \<^verbatim>\<open>a.pdf\<close> twice
  leaves both selected; with no regulation selected, toggling \<^verbatim>\<open>r.pdf\<close> twice leaves
  none selected.
\<close>

theorem double_toggle_identity_witness:
  "set (selectedUserDocIds (toggleUserDocSelection ''a.pdf'' (toggleUserDocSelection ''a.pdf''
      (initial_state\<lparr>documents := [doc_a, doc_b], selectedUserDocIds := [''a.pdf'', ''b.pdf'']\<rparr>))))
    = {''a.pdf'', ''b.pdf''}
   \<and> set (selectedMahareraIds (toggleMahareraSelection ''r.pdf'' (toggleMahareraSelection ''r.pdf''
      (initial_state\<lparr>mahareraDocuments := [reg_r]\<rparr>)))) = {}"
  using double_toggle_identity [of "''a.pdf''"
          "initial_state\<lparr>documents := [doc_a, doc_b], selectedUserDocIds := [''a.pdf'', ''b.pdf'']\<rparr>"]
        double_toggle_identity [of "''r.pdf''" "initial_state\<lparr>mahareraDocuments := [reg_r]\<rparr>"]
  by (simp add: ex_defs)

text \<open>
  Claim C7. For every listing and every selection, the status that the two update
  functions store on the select-all checkboxes is: \<open>checked\<close> iff the number of selected
  filenames equals the size of the listing and the listing is not empty; \<open>indeterminate\<close>
  iff the number of selected filenames is positive and below the size of the listing.
  The user-document checkbox is optional on the page; the statement for it is about a
  page that has it.
\<close>

theorem select_all_status:
  "(selectAllUserDocs st \<noteq> None \<longrightarrow>
      selectAllUserDocs (updateSelectAllUserDocsState st) \<noteq> None
      \<and> checked (the (selectAllUserDocs (updateSelectAllUserDocsState st)))
          = (Set_size (selectedUserDocIds st) = length (documents st) \<and> length (documents st) > 0)
      \<and> indeterminate (the (selectAllUserDocs (updateSelectAllUserDocsState st)))
          = (0 < Set_size (selectedUserDocIds st)
             \<and> Set_size (selectedUserDocIds st) < length (documents st)))
   \<and> checked (selectAllMaharera (updateSelectAllState st))
       = (Set_size (selectedMahareraIds st) = length (mahareraDocuments st)
          \<and> length (mahareraDocuments st) > 0)
   \<and> indeterminate (selectAllMaharera (updateSelectAllState st))
       = (0 < Set_size (selectedMahareraIds st)
          \<and> Set_size (selectedMahareraIds st) < length (mahareraDocuments st))"
  by (auto simp: updateSelectAllUserDocsState_def updateSelectAllState_def Let_def)

text \<open>
  Claim C7, witness: two documents listed and one of them selected give an unchecked,
  indeterminate select-all checkbox.
\<close>

theorem select_all_status_witness:
  "selectAllUserDocs (initial_state\<lparr>documents := [doc_a, doc_b], selectedUserDocIds := [''a.pdf'']\<rparr>) \<noteq> None
   \<and> \<not> checked (the (selectAllUserDocs (updateSelectAllUserDocsState
         (initial_state\<lparr>documents := [doc_a, doc_b], selectedUserDocIds := [''a.pdf'']\<rparr>))))
   \<and> indeterminate (the (selectAllUserDocs (updateSelectAllUserDocsState
         (initial_state\<lparr>documents := [doc_a, doc_b], selectedUserDocIds := [''a.pdf'']\<rparr>))))"
  using select_all_status [of "initial_state\<lparr>documents := [doc_a, doc_b], selectedUserDocIds := [''a.pdf'']\<rparr>"]
  by (simp add: ex_defs sel_defs)

section \<open>Properties of the orchestrator\<close>

text \<open>Which helper extends the log of requests and the list of messages shown.\<close>

lemma fetch_log_simps [simp]:
  "fetch_log (fetch c st) = fetch_log st @ [c]"
  "fetch_log (alert m st) = fetch_log st"
  "fetch_log (addMessage ser role content srcs rf dec summary st) = fetch_log st"
  "fetch_log (showTypingIndicator st) = fetch_log st"
  "fetch_log (updateComplianceButtonState st) = fetch_log st"
  by (simp_all add: fetch_def alert_def addMessage_def showTypingIndicator_def
        updateComplianceButtonState_def Let_def split: option.splits)

lemma alerts_simps [simp]:
  "alerts (fetch c st) = alerts st"
  "alerts (alert m st) = alerts st @ [m]"
  "alerts (addMessage ser role content srcs rf dec summary st) = alerts st"
  "alerts (showTypingIndicator st) = alerts st"
  "alerts (updateComplianceButtonState st) = alerts st"
  by (simp_all add: fetch_def alert_def addMessage_def showTypingIndicator_def
        updateComplianceButtonState_def Let_def split: option.splits)

text \<open>
  Claim C5. A compliance-check submit with no regulation selected, or with no user
  document listed, only shows its validation message: the state is otherwise unchanged
  and no request is issued. When a regulation is selected and a document is listed,
  exactly one \<^verbatim>\<open>/query\<close> request is issued, with \<^verbatim>\<open>top_k\<close> 10, \<^verbatim>\<open>compliance_check\<close> true
  and the selected regulations, and no message is shown.
\<close>

theorem checkCompliance_validation:
  "(Set_size (selectedMahareraIds st) = 0 \<longrightarrow>
      checkCompliance ser st
        = alert ''Please select at least one MahaRERA document to check compliance against.'' st)
   \<and> (Set_size (selectedMahareraIds st) \<noteq> 0 \<and> length (documents st) = 0 \<longrightarrow>
      checkCompliance ser st
        = alert ''No user documents loaded. Please add documents to check compliance.'' st)
   \<and> (Set_size (selectedMahareraIds st) = 0 \<or> length (documents st) = 0 \<longrightarrow>
      fetch_log (checkCompliance ser st) = fetch_log st
      \<and> length (alerts (checkCompliance ser st)) = length (alerts st) + 1)
   \<and> (Set_size (selectedMahareraIds st) > 0 \<and> length (documents st) > 0 \<longrightarrow>
      alerts (checkCompliance ser st) = alerts st
      \<and> (\<exists>q. fetch_log (checkCompliance ser st) = fetch_log st @ [Post_query q]
               \<and> top_k q = 10 \<and> req_compliance_check q = Some True
               \<and> selected_maharera q = Some (selectedMahareraIds st)))"
  by (simp add: checkCompliance_def Let_def Array_from_def)

text \<open>
  Claim C5, witness: with two documents listed and no regulation selected the submit
  shows one message and issues no request (scenario B of the specification); on the
  ready page it issues one request and shows no message.
\<close>

theorem checkCompliance_validation_witness:
  "Set_size (selectedMahareraIds (initial_state\<lparr>documents := [doc_a, doc_b]\<rparr>)) = 0
   \<and> fetch_log (checkCompliance id (initial_state\<lparr>documents := [doc_a, doc_b]\<rparr>)) = []
   \<and> length (alerts (checkCompliance id (initial_state\<lparr>documents := [doc_a, doc_b]\<rparr>))) = 1
   \<and> Set_size (selectedMahareraIds ready_state) > 0 \<and> length (documents ready_state) > 0
   \<and> length (fetch_log (checkCompliance id ready_state)) = 1
   \<and> alerts (checkCompliance id ready_state) = []"
  using checkCompliance_validation [of "initial_state\<lparr>documents := [doc_a, doc_b]\<rparr>" id]
        checkCompliance_validation [of ready_state id]
  by (auto simp: ex_defs Set_size_def)

text \<open>
  The free-text submit is guarded: while a request is in flight \<^verbatim>\<open>sendMessage\<close> returns
  at once.
\<close>

lemma sendMessage_while_loading: "isLoading st \<Longrightarrow> sendMessage ser st = st"
  by (simp add: sendMessage_def Let_def)

text \<open>
  Claim C4 does not hold of the code. \<^verbatim>\<open>checkCompliance\<close> sets \<^verbatim>\<open>state.isLoading\<close> but
  never reads it, and \<^verbatim>\<open>sendMessage\<close> disables only the send button. On the ready page,
  after a free-text submit the request is in flight, the compliance button is still
  enabled, and a click on it issues a second request; and two successive calls of
  \<^verbatim>\<open>checkCompliance\<close> issue two requests.
\<close>

theorem compliance_submit_while_submitting:
  "isLoading (sendMessage id ready_state)
   \<and> \<not> checkComplianceBtn_disabled (sendMessage id ready_state)
   \<and> length (fetch_log (sendMessage id ready_state)) = 1
   \<and> length (fetch_log (click_checkComplianceBtn id (sendMessage id ready_state))) = 2
   \<and> isLoading (checkCompliance id ready_state)
   \<and> length (fetch_log (checkCompliance id (checkCompliance id ready_state))) = 2"
  by code_simp

section \<open>Properties of deleting a document\<close>

lemma deleteDocument_resume_selection:
  "selectedUserDocIds (deleteDocument_resume f r st) = selectedUserDocIds st"
  by (simp add: deleteDocument_resume_def loadDocuments_def fetch_def alert_def Let_def
        split: response.splits)

lemma loadDocuments_resume_selection:
  "selectedUserDocIds (loadDocuments_resume r st) = selectedUserDocIds st"
  by (simp add: loadDocuments_resume_def renderDocumentList_def split: response.splits option.splits)

text \<open>
  The handler of the second copy of the script does what claim C3 says: after a
  successful delete the filename is not selected, and a selection that did not hold it
  is unchanged.
\<close>

lemma deleteDocument_resume_part_001_selection:
  "f \<notin> set (selectedUserDocIds (deleteDocument_resume_part_001 f (Ok u) st))
   \<and> (f \<notin> set (selectedUserDocIds st) \<longrightarrow>
        selectedUserDocIds (deleteDocument_resume_part_001 f (Ok u) st) = selectedUserDocIds st)"
  by (simp add: deleteDocument_resume_part_001_def loadDocuments_def fetch_def Let_def
        Set_has_def Set_delete_def)

text \<open>
  Claim C3 does not hold of \<^verbatim>\<open>src/txtai/script.js\<close>. Its handler clears
  \<^verbatim>\<open>state.selectedDocument\<close>, a property left over from single selection, and never
  touches \<^verbatim>\<open>state.selectedUserDocIds\<close>. With \<^verbatim>\<open>a.pdf\<close> listed and selected, a confirmed
  and successful delete of \<^verbatim>\<open>a.pdf\<close>, followed by the reload of a listing that no longer
  has it, leaves \<^verbatim>\<open>a.pdf\<close> in the selection set.
\<close>

theorem deleteDocument_keeps_selected_filename:
  "selectedUserDocIds (initial_state\<lparr>documents := [doc_a], selectedUserDocIds := [''a.pdf'']\<rparr>)
     = [''a.pdf'']
   \<and> selectedUserDocIds
       (loadDocuments_resume (Ok (Some []))
         (deleteDocument_resume ''a.pdf'' (Ok ())
           (deleteDocument ''a.pdf'' True
             (initial_state\<lparr>documents := [doc_a], selectedUserDocIds := [''a.pdf'']\<rparr>))))
     = [''a.pdf'']
   \<and> documents
       (loadDocuments_resume (Ok (Some []))
         (deleteDocument_resume ''a.pdf'' (Ok ())
           (deleteDocument ''a.pdf'' True
             (initial_state\<lparr>documents := [doc_a], selectedUserDocIds := [''a.pdf'']\<rparr>))))
     = []
   \<and> fetch_log
       (loadDocuments_resume (Ok (Some []))
         (deleteDocument_resume ''a.pdf'' (Ok ())
           (deleteDocument ''a.pdf'' True
             (initial_state\<lparr>documents := [doc_a], selectedUserDocIds := [''a.pdf'']\<rparr>))))
     = [Post_delete ''a.pdf'', Get_documents]"
  by (simp add: deleteDocument_def deleteDocument_resume_def loadDocuments_resume_def
        loadDocuments_def fetch_def renderDocumentList_def list_or_empty_def Let_def ex_defs)

section \<open>Properties of the rendered message\<close>

text \<open>
  When each block is present; the container of the red flags differs from the empty
  string and from the banner that reports no red flags.
\<close>

lemma complianceHTML_empty_iff:
  "complianceHTML ser dec summary \<noteq> [] \<longleftrightarrow> isComplianceCheck dec \<and> summary \<noteq> None"
  by (simp add: complianceHTML_def Let_def split: option.splits)

lemma red_flags_container_neq:
  "red_flags_container ser dec fs \<noteq> []"
  "red_flags_container ser dec fs \<noteq> no_red_flags_container"
  by (simp_all add: red_flags_container_def no_red_flags_container_def Let_def)

lemma redFlagsHTML_container_iff:
  "redFlagsHTML ser dec redFlags = red_flags_container ser dec (list_or_empty redFlags)
     \<longleftrightarrow> isComplianceCheck dec \<and> redFlags \<noteq> None \<and> list_or_empty redFlags \<noteq> []"
  using red_flags_container_neq [of ser dec "list_or_empty redFlags"]
  by (auto simp: redFlagsHTML_def list_or_empty_def split: option.splits)

lemma not_compliance_suppressed:
  "\<not> isComplianceCheck dec \<Longrightarrow>
     complianceHTML ser dec summary = [] \<and> redFlagsHTML ser dec redFlags = []"
  by (simp add: complianceHTML_def redFlagsHTML_def split: option.splits)

text \<open>
  Claim C6. In the rendered message the compliance-summary block is present exactly when
  the result is a compliance check and the summary is present; the block that lists the
  red flags is present exactly when the result is a compliance check and the red-flag
  list is present and not empty; and when the result is not a compliance check both
  parts of the view are empty, whatever fields the response carries.
\<close>

theorem blocks_only_for_compliance_checks:
  "(mv_complianceHTML (render_message ser role content srcs redFlags dec summary) \<noteq> []
      \<longleftrightarrow> isComplianceCheck dec \<and> summary \<noteq> None)
   \<and> (mv_redFlagsHTML (render_message ser role content srcs redFlags dec summary)
        = red_flags_container ser dec (list_or_empty redFlags)
      \<longleftrightarrow> isComplianceCheck dec \<and> redFlags \<noteq> None \<and> list_or_empty redFlags \<noteq> [])
   \<and> (\<not> isComplianceCheck dec \<longrightarrow>
        mv_complianceHTML (render_message ser role content srcs redFlags dec summary) = []
        \<and> mv_redFlagsHTML (render_message ser role content srcs redFlags dec summary) = [])"
  by (simp add: render_message_def complianceHTML_empty_iff redFlagsHTML_container_iff
        not_compliance_suppressed)

text \<open>
  Claim C6, witness: a free-text answer whose response carries a red flag and a summary
  shows neither block; the same fields under a compliance check show both.
\<close>

theorem blocks_only_for_compliance_checks_witness:
  "\<not> isComplianceCheck (Some decision_query)
   \<and> mv_complianceHTML (render_message id ''assistant'' ''Done.'' None (Some [flag_1])
        (Some decision_query) (Some summary_1)) = []
   \<and> mv_redFlagsHTML (render_message id ''assistant'' ''Done.'' None (Some [flag_1])
        (Some decision_query) (Some summary_1)) = []
   \<and> isComplianceCheck (Some decision_check)
   \<and> mv_complianceHTML (render_message id ''assistant'' ''Done.'' None (Some [flag_1])
        (Some decision_check) (Some summary_1)) \<noteq> []
   \<and> mv_redFlagsHTML (render_message id ''assistant'' ''Done.'' None (Some [flag_1])
        (Some decision_check) (Some summary_1))
       = red_flags_container id (Some decision_check) [flag_1]"
  using blocks_only_for_compliance_checks [of id "''assistant''" "''Done.''" None "Some [flag_1]"
          "Some decision_query" "Some summary_1"]
        blocks_only_for_compliance_checks [of id "''assistant''" "''Done.''" None "Some [flag_1]"
          "Some decision_check" "Some summary_1"]
  by (simp add: isComplianceCheck_def decision_query_def decision_check_def list_or_empty_def)

section \<open>Properties of the report builder\<close>

lemmas pdf_defs = move_def setFont_def setFontSize_def doc_text_def doc_rect_def doc_line_def
  addPage_def

text \<open>
  The invariant of a report build: every recorded call is within its limit. Moving the
  cursor, setting the font, adding a page, drawing a rectangle, a line or a text of the
  report function keep it; \<^verbatim>\<open>addText\<close> and \<^verbatim>\<open>addSection\<close> keep it on a page that is
  high enough for the top margin to lie within the limit; so does every part of the
  report built from them.
\<close>

lemma all_within_simple [simp]:
  "all_within e (move dy d) = all_within e d"
  "all_within e (setFont b d) = all_within e d"
  "all_within e (setFontSize fs d) = all_within e d"
  "all_within e (d\<lparr>yPos := y\<rparr>) = all_within e d"
  "all_within e (d\<lparr>page := p\<rparr>) = all_within e d"
  "all_within e (addPage d) = all_within e d"
  "all_within e (doc_text By_report s x y d) = all_within e d"
  "all_within e (doc_rect x y w h d) = all_within e d"
  "all_within e (doc_line x y w h d) = all_within e d"
  by (simp_all add: all_within_def pdf_defs within_limit_def)

lemma all_within_addText_lines:
  "50 \<le> pageHeight e \<Longrightarrow> all_within e d \<Longrightarrow> all_within e (addText_lines e fs ls d)"
proof (induction ls arbitrary: d)
  case Nil
  then show ?case by simp
next
  case (Cons l ls)
  have "all_within e (doc_text By_addText l margin
          (yPos (if yPos d > pageHeight e - 30 then (addPage d)\<lparr>yPos := 20\<rparr> else d))
          (if yPos d > pageHeight e - 30 then (addPage d)\<lparr>yPos := 20\<rparr> else d))"
    using Cons.prems by (simp add: all_within_def pdf_defs within_limit_def)
  then show ?case
    using Cons.IH Cons.prems(1) by (simp add: Let_def)
qed

lemma all_within_addText:
  "50 \<le> pageHeight e \<Longrightarrow> all_within e d \<Longrightarrow> all_within e (addText e t fs b d)"
  by (simp add: addText_def Let_def all_within_addText_lines)

lemma all_within_addSection:
  "60 \<le> pageHeight e \<Longrightarrow> all_within e d \<Longrightarrow> all_within e (addSection e t d)"
  by (simp add: addSection_def Let_def all_within_def pdf_defs within_limit_def)

lemma fold_preserves:
  "(\<And>x d. P d \<Longrightarrow> P (f x d)) \<Longrightarrow> P d \<Longrightarrow> P (fold f xs d)"
  by (induction xs arbitrary: d) simp_all

lemma forEach_idx_preserves:
  "(\<And>i x d. P d \<Longrightarrow> P (f i x d)) \<Longrightarrow> P d \<Longrightarrow> P (forEach_idx f i xs d)"
  by (induction xs arbitrary: d i) simp_all

lemma all_within_missing_clauses:
  "50 \<le> pageHeight e \<Longrightarrow> all_within e d \<Longrightarrow> all_within e (missing_clauses e h items gap d)"
  by (simp add: missing_clauses_def all_within_addText fold_preserves)

lemma all_within_executive_summary:
  "50 \<le> pageHeight e \<Longrightarrow> all_within e d \<Longrightarrow> all_within e (executive_summary e summary d)"
  by (simp add: executive_summary_def Let_def all_within_addText all_within_missing_clauses
        split: option.splits)

lemma all_within_red_flag_block:
  "50 \<le> pageHeight e \<Longrightarrow> all_within e d \<Longrightarrow> all_within e (red_flag_block e idx flag d)"
  by (simp add: red_flag_block_def Let_def all_within_addText split: option.splits)

lemma all_within_red_flag_analysis:
  "50 \<le> pageHeight e \<Longrightarrow> all_within e d \<Longrightarrow> all_within e (red_flag_analysis e fs d)"
  by (simp add: red_flag_analysis_def Let_def all_within_addText all_within_red_flag_block
        forEach_idx_preserves)

lemma all_within_source_block:
  "50 \<le> pageHeight e \<Longrightarrow> all_within e d \<Longrightarrow> all_within e (source_block e idx src d)"
  by (simp add: source_block_def all_within_addText)

lemma all_within_sources_section:
  "60 \<le> pageHeight e \<Longrightarrow> all_within e d \<Longrightarrow> all_within e (sources_section e srcs d)"
  by (simp add: sources_section_def all_within_source_block all_within_addSection
        forEach_idx_preserves)

lemma all_within_disclaimer_line:
  "all_within e d \<Longrightarrow> all_within e (disclaimer_line e l d)"
  by (simp add: disclaimer_line_def Let_def)

lemma all_within_footers:
  "all_within e d \<Longrightarrow> all_within e (footers e label d)"
  by (simp add: footers_def Let_def fold_preserves)



lemma all_within_report:
  assumes "60 \<le> pageHeight e"
  shows "all_within e (generateComplianceReport e data)"
proof -
  have 50: "50 \<le> pageHeight e" using assms by simp
  define d4 where "d4 = (doc_text By_report (''Generated: '' @ dateStr e @ '' at '' @ timeStr e)
                 (pageWidth e / 2) 25 (setFont False (setFontSize 10
                   (doc_text By_report ''REAL ESTATE COMPLIANCE REPORT'' (pageWidth e / 2) 15
                 (setFont True (setFontSize 20 (doc_rect 0 0 (pageWidth e) 35 new_jsPDF)))))))\<lparr>yPos := 50\<rparr>"
  define d5 where "d5 = executive_summary e (rd_complianceSummary data) (addSection e ''EXECUTIVE SUMMARY'' d4)"
  define d6 where "d6 = red_flag_analysis e (rd_redFlags data) (addSection e ''RED FLAG ANALYSIS'' d5)"
  define d7 where "d7 = addText e (rd_content data) 10 False (addSection e ''AI ANALYSIS & RECOMMENDATIONS'' d6)"
  define d8 where "d8 = sources_section e (rd_sources data) d7"
  define d9 where "d9 = setFontSize 8 (addSection e ''DISCLAIMER'' d8)"
  define d10 where "d10 = fold (disclaimer_line e)
                  (splitTextToSize e (fontSize d9) (bold d9) (maxWidth e) disclaimer) d9"
  have r: "generateComplianceReport e data = footers e ''CloverAI - MahaRERA Compliance System'' d10"
    unfolding generateComplianceReport_def Let_def d10_def d9_def d8_def d7_def d6_def d5_def d4_def ..
  have "all_within e d4"
    unfolding d4_def by (simp add: all_within_def new_jsPDF_def pdf_defs within_limit_def)
  then have "all_within e d5"
    unfolding d5_def by (intro all_within_executive_summary all_within_addSection assms 50)
  then have "all_within e d6"
    unfolding d6_def by (intro all_within_red_flag_analysis all_within_addSection assms 50)
  then have "all_within e d7"
    unfolding d7_def by (intro all_within_addText all_within_addSection assms 50)
  then have "all_within e d8"
    unfolding d8_def by (intro all_within_sources_section assms)
  then have "all_within e d9"
    unfolding d9_def by (simp add: all_within_addSection assms)
  then have "all_within e d10"
    unfolding d10_def
    by (rule fold_preserves [where P = "all_within e", rotated]) (rule all_within_disclaimer_line)
  then show ?thesis
    unfolding r by (rule all_within_footers)
qed


lemma within_limit_addText:
  "within_limit e (Text By_addText p x y s) = (y \<le> pageHeight e - 30)"
  "within_limit e (Text By_addSection p x y s) = (y \<le> pageHeight e - 38)"
  by (simp_all add: within_limit_def)

text \<open>
  Claim C1. On a page at least 60 units high (an A4 page is 297 high), in every report
  that \<^verbatim>\<open>generateComplianceReport\<close> builds, every line drawn by \<^verbatim>\<open>addText\<close> lies at or
  above \<open>pageHeight - 30\<close>, the limit its page-break guard tests, and every title drawn by
  \<^verbatim>\<open>addSection\<close> at or above \<open>pageHeight - 38\<close>. For every line of every call: when the
  cursor is beyond the limit, a page is added and the cursor reset to the top margin 20,
  and only then is the line drawn, at 20 on the new page; otherwise the line is drawn at
  the cursor on the current page. Either way the cursor then moves down by half the
  font size.
\<close>

theorem addText_lines_within_printable_area:
  assumes "60 \<le> pageHeight e"
  shows "(\<forall>p x y s. Text By_addText p x y s \<in> set (drawn (generateComplianceReport e data))
            \<longrightarrow> y \<le> pageHeight e - 30)
       \<and> (\<forall>p x y s. Text By_addSection p x y s \<in> set (drawn (generateComplianceReport e data))
            \<longrightarrow> y \<le> pageHeight e - 38)
       \<and> (yPos d > pageHeight e - 30 \<longrightarrow>
            addText_lines e fs (l # ls) d
              = addText_lines e fs ls
                  (move (fs * 0.5) (doc_text By_addText l margin 20 ((addPage d)\<lparr>yPos := 20\<rparr>))))
       \<and> (yPos d \<le> pageHeight e - 30 \<longrightarrow>
            addText_lines e fs (l # ls) d
              = addText_lines e fs ls (move (fs * 0.5) (doc_text By_addText l margin (yPos d) d)))"
proof -
  have "list_all (within_limit e) (drawn (generateComplianceReport e data))"
    using all_within_report [OF assms] by (simp add: all_within_def)
  then have *: "\<And>op. op \<in> set (drawn (generateComplianceReport e data)) \<Longrightarrow> within_limit e op"
    by (simp add: list_all_iff)
  have a: "\<forall>p x y s. Text By_addText p x y s \<in> set (drawn (generateComplianceReport e data))
            \<longrightarrow> y \<le> pageHeight e - 30"
    using * within_limit_addText(1) by blast
  have b: "\<forall>p x y s. Text By_addSection p x y s \<in> set (drawn (generateComplianceReport e data))
            \<longrightarrow> y \<le> pageHeight e - 38"
    using * within_limit_addText(2) by blast
  have c: "yPos d > pageHeight e - 30 \<longrightarrow>
            addText_lines e fs (l # ls) d
              = addText_lines e fs ls
                  (move (fs * 0.5) (doc_text By_addText l margin 20 ((addPage d)\<lparr>yPos := 20\<rparr>)))"
    by (simp add: Let_def)
  have d: "yPos d \<le> pageHeight e - 30 \<longrightarrow>
            addText_lines e fs (l # ls) d
              = addText_lines e fs ls (move (fs * 0.5) (doc_text By_addText l margin (yPos d) d))"
    by (simp add: Let_def)
  show ?thesis using a b c d by blast
qed

text \<open>
  Claim C1, witness: on the A4 page every recorded call of the example report is within
  its limit; two lines started with the cursor at 270 go to page 2, at 20 and 25; a line
  started with the cursor at 50 stays on page 1, at 50.
\<close>

theorem addText_lines_within_printable_area_witness:
  "60 \<le> pageHeight env_a4
   \<and> list_all (within_limit env_a4) (drawn (generateComplianceReport env_a4 report_1))
   \<and> yPos (new_jsPDF\<lparr>yPos := 270\<rparr>) > pageHeight env_a4 - 30
   \<and> drawn (addText_lines env_a4 10 [''a'', ''b''] (new_jsPDF\<lparr>yPos := 270\<rparr>))
       = [Text By_addText 2 20 20 ''a'', Text By_addText 2 20 25 ''b'']
   \<and> yPos (new_jsPDF\<lparr>yPos := 50\<rparr>) \<le> pageHeight env_a4 - 30
   \<and> drawn (addText_lines env_a4 10 [''a''] (new_jsPDF\<lparr>yPos := 50\<rparr>))
       = [Text By_addText 1 20 50 ''a'']"
proof -
  have h: "60 \<le> pageHeight env_a4"
    by (simp add: env_a4_def)
  note a = addText_lines_within_printable_area
             [OF h, of report_1 "new_jsPDF\<lparr>yPos := 270\<rparr>" 10 "''a''" "[''b'']"]
  note b = addText_lines_within_printable_area
             [OF h, of report_1 "new_jsPDF\<lparr>yPos := 50\<rparr>" 10 "''a''" "[]"]
  have "within_limit env_a4 op"
    if "op \<in> set (drawn (generateComplianceReport env_a4 report_1))" for op
  proof (cases op)
    case (Text org p x y s)
    show ?thesis
    proof (cases org)
      case By_addText
      then show ?thesis
        using a that Text by (simp add: within_limit_def) blast
    next
      case By_addSection
      then show ?thesis
        using a that Text by (simp add: within_limit_def) blast
    next
      case By_report
      then show ?thesis
        using Text by (simp add: within_limit_def)
    qed
  qed (simp_all add: within_limit_def)
  then have "list_all (within_limit env_a4) (drawn (generateComplianceReport env_a4 report_1))"
    by (simp add: list_all_iff)
  moreover have "yPos (new_jsPDF\<lparr>yPos := 270\<rparr>) > pageHeight env_a4 - 30
      \<and> drawn (addText_lines env_a4 10 [''a'', ''b''] (new_jsPDF\<lparr>yPos := 270\<rparr>))
          = [Text By_addText 2 20 20 ''a'', Text By_addText 2 20 25 ''b'']"
    using a by (simp add: env_a4_def new_jsPDF_def Let_def pdf_defs margin_def)
  moreover have "yPos (new_jsPDF\<lparr>yPos := 50\<rparr>) \<le> pageHeight env_a4 - 30
      \<and> drawn (addText_lines env_a4 10 [''a''] (new_jsPDF\<lparr>yPos := 50\<rparr>))
          = [Text By_addText 1 20 50 ''a'']"
    using b by (simp add: env_a4_def new_jsPDF_def Let_def pdf_defs margin_def)
  ultimately show ?thesis
    using h by blast
qed

text \<open>\<^verbatim>\<open>addText\<close> and \<^verbatim>\<open>addSection\<close> draw the lines that the wrapping returns, in order.\<close>

lemma texts_simple [simp]:
  "texts (move dy d) = texts d"
  "texts (setFont b d) = texts d"
  "texts (setFontSize fs d) = texts d"
  "texts (d\<lparr>yPos := y\<rparr>) = texts d"
  "texts (d\<lparr>page := p\<rparr>) = texts d"
  "texts (addPage d) = texts d"
  "texts (doc_text org s x y d) = texts d @ [s]"
  "texts (doc_rect x y w h d) = texts d"
  "texts (doc_line x y w h d) = texts d"
  by (simp_all add: texts_def draw_texts_def pdf_defs)

lemma font_simple [simp]:
  "fontSize (setFontSize fs d) = fs"
  "bold (setFontSize fs d) = bold d"
  "fontSize (setFont b d) = fontSize d"
  "bold (setFont b d) = b"
  by (simp_all add: pdf_defs)

lemma texts_addText_lines: "texts (addText_lines e fs ls d) = texts d @ ls"
  by (induction ls arbitrary: d) (simp_all add: Let_def)

lemma texts_addText:
  "texts (addText e t fs b d) = texts d @ splitTextToSize e fs b (maxWidth e) t"
  by (simp add: addText_def Let_def texts_addText_lines)

lemma texts_addSection: "texts (addSection e t d) = texts d @ [t]"
  by (simp add: addSection_def Let_def)

lemma texts_le_refl: "texts_le d d"
  by (simp add: texts_le_def)

lemma texts_le_prims:
  "texts_le d d' \<Longrightarrow> texts_le d (move dy d')"
  "texts_le d d' \<Longrightarrow> texts_le d (setFontSize fs d')"
  "texts_le d d' \<Longrightarrow> texts_le d (setFont b d')"
  "texts_le d d' \<Longrightarrow> texts_le d (doc_text org s x y d')"
  "texts_le d d' \<Longrightarrow> texts_le d (addText e t fs b d')"
  "texts_le d d' \<Longrightarrow> texts_le d (addSection e t d')"
  by (auto simp: texts_le_def texts_addText texts_addSection)

lemma texts_le_fold:
  assumes "\<And>x a b. texts_le a b \<Longrightarrow> texts_le a (f x b)"
  shows "texts_le d d' \<Longrightarrow> texts_le d (fold f xs d')"
  by (induction xs arbitrary: d') (simp_all add: assms)

lemma texts_le_forEach_idx:
  assumes "\<And>i x a b. texts_le a b \<Longrightarrow> texts_le a (f i x b)"
  shows "texts_le d d' \<Longrightarrow> texts_le d (forEach_idx f i xs d')"
  by (induction xs arbitrary: d' i) (simp_all add: assms)

lemma texts_le_red_flag_block:
  "texts_le d d' \<Longrightarrow> texts_le d (red_flag_block e idx flag d')"
  by (simp add: red_flag_block_def Let_def texts_le_prims split: option.splits)

lemma texts_le_source_block:
  "texts_le d d' \<Longrightarrow> texts_le d (source_block e idx src d')"
  by (simp add: source_block_def texts_le_prims)

lemma texts_le_sources_section:
  "texts_le d d' \<Longrightarrow> texts_le d (sources_section e srcs d')"
  by (simp add: sources_section_def texts_le_prims texts_le_forEach_idx texts_le_source_block)

lemma texts_le_disclaimer_line:
  "texts_le d d' \<Longrightarrow> texts_le d (disclaimer_line e l d')"
  by (auto simp: disclaimer_line_def Let_def texts_le_def)

lemma texts_le_footers:
  "texts_le d d' \<Longrightarrow> texts_le d (footers e label d')"
  unfolding footers_def Let_def
  by (rule texts_le_fold) (auto simp: texts_le_def)

lemma forEach_idx_append:
  "forEach_idx f i (xs @ ys) d = forEach_idx f (i + length xs) ys (forEach_idx f i xs d)"
  by (induction xs arbitrary: i d) simp_all

text \<open>
  The texts of the block of a red flag that has a clause source with a filename and a
  non-empty excerpt.
\<close>

lemma texts_red_flag_block:
  assumes "clause_source flag = Some src" and "cs_filename src = Some fn" and "fn \<noteq> []"
    and "cs_excerpt src = Some ex" and "ex \<noteq> []"
  shows \<open>texts (red_flag_block e idx flag d)
           = texts d
             @ splitTextToSize e 10 True (maxWidth e)
                 (''Red Flag #'' @ string_of_nat (idx + 1) @ '': ['' @ severity flag @ ''] ''
                  @ rule_id flag)
             @ splitTextToSize e 9 False (maxWidth e) (''Domain: '' @ rf_domain flag)
             @ splitTextToSize e 9 False (maxWidth e) (''Issue: '' @ reason flag)
             @ splitTextToSize e 9 False (maxWidth e) (''Found in: '' @ fn)
             @ splitTextToSize e 8 False (maxWidth e) (''Excerpt: "'' @ take 150 ex @ ''..."'')\<close>
  using assms
  by (simp add: red_flag_block_def Let_def texts_addText excerpt_line_def substring0_def truthy_def)

lemma texts_red_flag_analysis:
  assumes "clause_source flag = Some src" and "cs_filename src = Some fn" and "fn \<noteq> []"
    and "cs_excerpt src = Some ex" and "ex \<noteq> []"
  shows \<open>\<exists>pre post. texts (red_flag_analysis e (Some (fs1 @ flag # fs2)) d)
           = pre
             @ splitTextToSize e 10 True (maxWidth e)
                 (''Red Flag #'' @ string_of_nat (length fs1 + 1) @ '': ['' @ severity flag @ ''] ''
                  @ rule_id flag)
             @ splitTextToSize e 9 False (maxWidth e) (''Domain: '' @ rf_domain flag)
             @ splitTextToSize e 9 False (maxWidth e) (''Issue: '' @ reason flag)
             @ splitTextToSize e 9 False (maxWidth e) (''Found in: '' @ fn)
             @ splitTextToSize e 8 False (maxWidth e) (''Excerpt: "'' @ take 150 ex @ ''..."'')
             @ post\<close>
proof -
  define d0 where "d0 = move 5 (addText e (''  Critical: ''
      @ string_of_nat (count_severity ''CRITICAL'' (fs1 @ flag # fs2))
      @ ''  |  High: '' @ string_of_nat (count_severity ''HIGH'' (fs1 @ flag # fs2))
      @ ''  |  Medium: '' @ string_of_nat (count_severity ''MEDIUM'' (fs1 @ flag # fs2))
      @ ''  |  Low: '' @ string_of_nat (count_severity ''LOW'' (fs1 @ flag # fs2))) 9 False
      (addText e (''Total Red Flags Detected: '' @ string_of_nat (length (fs1 @ flag # fs2)))
         11 True d))"
  define dA where "dA = forEach_idx (red_flag_block e) 0 fs1 d0"
  define dB where "dB = red_flag_block e (length fs1) flag dA"
  have r: "red_flag_analysis e (Some (fs1 @ flag # fs2)) d
             = forEach_idx (red_flag_block e) (length fs1 + 1) fs2 dB"
    by (simp add: red_flag_analysis_def Let_def forEach_idx_append d0_def dA_def dB_def)
  have "texts_le dB (forEach_idx (red_flag_block e) (length fs1 + 1) fs2 dB)"
    by (rule texts_le_forEach_idx) (rule texts_le_red_flag_block, assumption, rule texts_le_refl)
  then obtain post where "texts (red_flag_analysis e (Some (fs1 @ flag # fs2)) d) = texts dB @ post"
    unfolding r texts_le_def by blast
  then show ?thesis
    unfolding dB_def texts_red_flag_block [OF assms] by (intro exI [of _ "texts dA"] exI [of _ post]) simp
qed

lemma texts_generateComplianceReport:
  assumes "clause_source flag = Some src" and "cs_filename src = Some fn" and "fn \<noteq> []"
    and "cs_excerpt src = Some ex" and "ex \<noteq> []"
    and "rd_redFlags data = Some (fs1 @ flag # fs2)"
  shows \<open>\<exists>pre post. texts (generateComplianceReport e data)
           = pre
             @ splitTextToSize e 10 True (maxWidth e)
                 (''Red Flag #'' @ string_of_nat (length fs1 + 1) @ '': ['' @ severity flag @ ''] ''
                  @ rule_id flag)
             @ splitTextToSize e 9 False (maxWidth e) (''Domain: '' @ rf_domain flag)
             @ splitTextToSize e 9 False (maxWidth e) (''Issue: '' @ reason flag)
             @ splitTextToSize e 9 False (maxWidth e) (''Found in: '' @ fn)
             @ splitTextToSize e 8 False (maxWidth e) (''Excerpt: "'' @ take 150 ex @ ''..."'')
             @ post\<close>
proof -
  define d4 where "d4 = (doc_text By_report (''Generated: '' @ dateStr e @ '' at '' @ timeStr e)
                 (pageWidth e / 2) 25 (setFont False (setFontSize 10
                   (doc_text By_report ''REAL ESTATE COMPLIANCE REPORT'' (pageWidth e / 2) 15
                 (setFont True (setFontSize 20 (doc_rect 0 0 (pageWidth e) 35 new_jsPDF)))))))\<lparr>yPos := 50\<rparr>"
  define d5 where "d5 = executive_summary e (rd_complianceSummary data) (addSection e ''EXECUTIVE SUMMARY'' d4)"
  define d6 where "d6 = red_flag_analysis e (rd_redFlags data) (addSection e ''RED FLAG ANALYSIS'' d5)"
  define d7 where "d7 = addText e (rd_content data) 10 False (addSection e ''AI ANALYSIS & RECOMMENDATIONS'' d6)"
  define d8 where "d8 = sources_section e (rd_sources data) d7"
  define d9 where "d9 = setFontSize 8 (addSection e ''DISCLAIMER'' d8)"
  define d10 where "d10 = fold (disclaimer_line e)
                  (splitTextToSize e (fontSize d9) (bold d9) (maxWidth e) disclaimer) d9"
  define block where \<open>block = splitTextToSize e 10 True (maxWidth e)
                 (''Red Flag #'' @ string_of_nat (length fs1 + 1) @ '': ['' @ severity flag @ ''] ''
                  @ rule_id flag)
             @ splitTextToSize e 9 False (maxWidth e) (''Domain: '' @ rf_domain flag)
             @ splitTextToSize e 9 False (maxWidth e) (''Issue: '' @ reason flag)
             @ splitTextToSize e 9 False (maxWidth e) (''Found in: '' @ fn)
             @ splitTextToSize e 8 False (maxWidth e) (''Excerpt: "'' @ take 150 ex @ ''..."'')\<close>
  have r: "generateComplianceReport e data = footers e ''CloverAI - MahaRERA Compliance System'' d10"
    unfolding generateComplianceReport_def Let_def d10_def d9_def d8_def d7_def d6_def d5_def d4_def ..
  obtain pre post where 6: "texts d6 = pre @ block @ post"
    unfolding d6_def assms(6) block_def using texts_red_flag_analysis [OF assms(1-5)] by force
  have "texts_le d6 d7"
    unfolding d7_def by (intro texts_le_prims texts_le_refl)
  then have "texts_le d6 d8"
    unfolding d8_def by (rule texts_le_sources_section)
  then have "texts_le d6 d9"
    unfolding d9_def by (intro texts_le_prims)
  then have "texts_le d6 d10"
    unfolding d10_def by (rule texts_le_fold [rotated]) (rule texts_le_disclaimer_line)
  then have "texts_le d6 (generateComplianceReport e data)"
    unfolding r by (rule texts_le_footers)
  then obtain ts where "texts (generateComplianceReport e data) = texts d6 @ ts"
    unfolding texts_le_def by blast
  then have "texts (generateComplianceReport e data) = pre @ block @ (post @ ts)"
    using 6 by simp
  then show ?thesis
    unfolding block_def by (intro exI [of _ pre] exI [of _ "post @ ts"]) simp
qed

lemma escapeHtml_plain:
  "ser s = s \<Longrightarrow> CHR 0x0A \<notin> set s \<Longrightarrow> escapeHtml ser s = s"
proof -
  have "concat (map (\<lambda>c. if c = CHR 0x0A then ''<br>'' else [c]) s) = s" if "CHR 0x0A \<notin> set s"
    using that by (induction s) auto
  then show "ser s = s \<Longrightarrow> CHR 0x0A \<notin> set s \<Longrightarrow> escapeHtml ser s = s"
    by (simp add: escapeHtml_def)
qed

text \<open>The excerpt block lies inside the clause-source block, inside the item of its flag, inside the container.\<close>

lemma segment_in_segment:
  "s = a @ m @ b \<Longrightarrow> m = a' @ x @ b' \<Longrightarrow> \<exists>pre post. s = pre @ x @ post"
proof -
  assume "s = a @ m @ b" and "m = a' @ x @ b'"
  then have "s = (a @ a') @ x @ (b' @ b)" by simp
  then show ?thesis by blast
qed

lemma clause_source_html_excerpt:
  assumes "truthy (cs_filename src)" and "cs_excerpt src = Some ex" and "ex \<noteq> []"
  shows \<open>clause_source_html ser src
           = (''<div class="clause-source"><strong>Found in:</strong> ''
              @ escapeHtml ser (the (cs_filename src)) @ '' '' @ or_else (cs_section src) [])
             @ (''<div class="clause-excerpt">"'' @ escapeHtml ser (take 150 ex) @ ''..."</div>'')
             @ ''</div>''\<close>
  using assms
  by (simp add: clause_source_html_def clause_excerpt_html_def truthy_def substring0_def)

lemma red_flag_item_html_clause_source:
  assumes "clause_source flag = Some src"
  shows "\<exists>a b. red_flag_item_html ser flag = a @ clause_source_html ser src @ b"
proof -
  define colour where "colour = (case severityColors (severity flag) of None \<Rightarrow> ''#666'' | Some c \<Rightarrow> c)"
  define icon where "icon = (case severityIcons (severity flag) of None \<Rightarrow> ''[?]'' | Some i \<Rightarrow> i)"
  define authSupport where "authSupport = take 2 (list_or_empty (authority_support flag))"
  have \<open>red_flag_item_html ser flag
        = (''<div class="red-flag-item" style="border-left: 4px solid '' @ colour @ ''">''
           @ ''<div class="red-flag-title">''
           @ ''<span class="severity-badge" style="background: '' @ colour @ ''">''
           @ icon @ '' '' @ severity flag @ ''</span>''
           @ ''<span class="rule-id">'' @ rule_id flag @ ''</span>''
           @ ''<span class="domain-badge">'' @ rf_domain flag @ ''</span>''
           @ ''</div>''
           @ ''<div class="red-flag-reason">'' @ escapeHtml ser (reason flag) @ ''</div>'')
          @ clause_source_html ser src
          @ ((if has_authority_support flag \<noteq> Some False \<and> length authSupport > 0 then
              ''<div class="authority-support"><strong>Authority Reference:</strong>''
              @ concat (map (auth_item_html ser) authSupport) @ ''</div>''
            else [])
          @ ''</div>'')\<close>
    using assms
    by (simp add: red_flag_item_html_def Let_def colour_def icon_def authSupport_def)
  then show ?thesis by blast
qed

lemma red_flags_container_item:
  "\<exists>a b. red_flags_container ser dec (fs1 @ flag # fs2) = a @ red_flag_item_html ser flag @ b"
proof -
  define isRedFlag where "isRedFlag = (case dec of None \<Rightarrow> False | Some d \<Rightarrow> is_red_flag d = Some True)"
  have \<open>red_flags_container ser dec (fs1 @ flag # fs2)
        = (''<div class="red-flags-container">''
           @ ''<div class="'' @ (if isRedFlag then ''red-flag-header critical'' else ''red-flag-header'')
           @ ''">'' @ (if isRedFlag then ''RED FLAGS DETECTED - Non-Compliant Clauses Found''
                        else ''Potential Issues Found'') @ ''</div>''
           @ concat (map (red_flag_item_html ser) fs1))
          @ red_flag_item_html ser flag
          @ (concat (map (red_flag_item_html ser) fs2) @ ''</div>'')\<close>
    by (simp add: red_flags_container_def Let_def isRedFlag_def)
  then show ?thesis by blast
qed

lemma redFlagsHTML_excerpt:
  assumes "isComplianceCheck dec"
    and "clause_source flag = Some src" and "truthy (cs_filename src)"
    and "cs_excerpt src = Some ex" and "ex \<noteq> []"
  shows \<open>\<exists>pre post. redFlagsHTML ser dec (Some (fs1 @ flag # fs2))
           = pre @ (''<div class="clause-excerpt">"'' @ escapeHtml ser (take 150 ex) @ ''..."</div>'')
             @ post\<close>
proof -
  have r: "redFlagsHTML ser dec (Some (fs1 @ flag # fs2))
             = red_flags_container ser dec (fs1 @ flag # fs2)"
    using assms(1) by (simp add: redFlagsHTML_def)
  obtain a b where 1: "red_flags_container ser dec (fs1 @ flag # fs2)
      = a @ red_flag_item_html ser flag @ b"
    using red_flags_container_item by blast
  obtain a' b' where 2: "red_flag_item_html ser flag = a' @ clause_source_html ser src @ b'"
    using red_flag_item_html_clause_source [OF assms(2)] by blast
  obtain p q where 3: "red_flags_container ser dec (fs1 @ flag # fs2)
      = p @ clause_source_html ser src @ q"
    using segment_in_segment [OF 1 2] by blast
  show ?thesis
    unfolding r
    by (rule segment_in_segment [OF 3 clause_source_html_excerpt [OF assms(3-5)]])
qed

text \<open>The markup of the red flags of a compliance check, around one of the flags.\<close>

lemma redFlagsHTML_item:
  assumes "isComplianceCheck dec"
    and "clause_source flag = Some src" and "cs_filename src = Some fn" and "fn \<noteq> []"
    and "cs_excerpt src = Some ex" and "ex \<noteq> []"
  shows \<open>redFlagsHTML ser dec (Some (fs1 @ flag # fs2))
           = ''<div class="red-flags-container">''
             @ ''<div class="''
             @ (if (case dec of None \<Rightarrow> False | Some d \<Rightarrow> is_red_flag d = Some True)
                then ''red-flag-header critical'' else ''red-flag-header'')
             @ ''">''
             @ (if (case dec of None \<Rightarrow> False | Some d \<Rightarrow> is_red_flag d = Some True)
                then ''RED FLAGS DETECTED - Non-Compliant Clauses Found''
                else ''Potential Issues Found'')
             @ ''</div>''
             @ concat (map (red_flag_item_html ser) fs1)
             @ ''<div class="red-flag-item" style="border-left: 4px solid ''
             @ (case severityColors (severity flag) of None \<Rightarrow> ''#666'' | Some c \<Rightarrow> c) @ ''">''
             @ ''<div class="red-flag-title">''
             @ ''<span class="severity-badge" style="background: ''
             @ (case severityColors (severity flag) of None \<Rightarrow> ''#666'' | Some c \<Rightarrow> c) @ ''">''
             @ (case severityIcons (severity flag) of None \<Rightarrow> ''[?]'' | Some i \<Rightarrow> i)
             @ '' '' @ severity flag @ ''</span>''
             @ ''<span class="rule-id">'' @ rule_id flag @ ''</span>''
             @ ''<span class="domain-badge">'' @ rf_domain flag @ ''</span>''
             @ ''</div>''
             @ ''<div class="red-flag-reason">'' @ escapeHtml ser (reason flag) @ ''</div>''
             @ ''<div class="clause-source">''
             @ ''<strong>Found in:</strong> '' @ escapeHtml ser fn
             @ '' '' @ (case cs_section src of None \<Rightarrow> [] | Some s \<Rightarrow> s)
             @ ''<div class="clause-excerpt">"'' @ escapeHtml ser (take 150 ex) @ ''..."</div>''
             @ ''</div>''
             @ (if has_authority_support flag \<noteq> Some False
                   \<and> length (take 2 (case authority_support flag of None \<Rightarrow> [] | Some as \<Rightarrow> as)) > 0
                then ''<div class="authority-support"><strong>Authority Reference:</strong>''
                     @ concat (map (auth_item_html ser)
                         (take 2 (case authority_support flag of None \<Rightarrow> [] | Some as \<Rightarrow> as)))
                     @ ''</div>''
                else [])
             @ ''</div>''
             @ concat (map (red_flag_item_html ser) fs2)
             @ ''</div>''\<close>
  using assms
  by (cases "cs_section src")
     (simp_all add: redFlagsHTML_def red_flags_container_def red_flag_item_html_def Let_def
        clause_source_html_def clause_excerpt_html_def truthy_def substring0_def or_else_def
        list_or_empty_def)

text \<open>
  On the example page, where every text stays on one line, a text helper that finds the
  cursor within the limit draws one text and moves the cursor; the footer pass of a
  one-page document draws the two footer texts.
\<close>

lemma addText_env_one_line:
  "yPos d \<le> 267 \<Longrightarrow>
   addText env_one_line t fs b d
     = \<lparr>yPos = yPos d + fs * 0.5 + 2, page = page d, fontSize = fs, bold = b,
        drawn = drawn d @ [Text By_addText (page d) 20 (yPos d) t]\<rparr>"
  by (simp add: addText_def Let_def env_one_line_def env_a4_def pdf_defs margin_def)

lemma addSection_env_one_line:
  "yPos d \<le> 252 \<Longrightarrow>
   addSection env_one_line t d
     = \<lparr>yPos = yPos d + 20, page = page d, fontSize = 12, bold = True,
        drawn = drawn d @ [Rect (page d) 20 (yPos d) 170 10,
                           Text By_addSection (page d) 23 (yPos d + 7) t]\<rparr>"
  by (simp add: addSection_def Let_def env_one_line_def env_a4_def pdf_defs margin_def
        maxWidth_def)

lemma disclaimer_line_env_one_line:
  "yPos d \<le> 277 \<Longrightarrow>
   disclaimer_line env_one_line l d
     = \<lparr>yPos = yPos d + 4, page = page d, fontSize = fontSize d, bold = bold d,
        drawn = drawn d @ [Text By_report (page d) 20 (yPos d) l]\<rparr>"
  by (simp add: disclaimer_line_def Let_def env_one_line_def env_a4_def pdf_defs margin_def)

lemma footers_one_page:
  "page d = 1 \<Longrightarrow>
   texts (footers e label d) = texts d @ [''Page 1 of 1'', label]"
  by (simp add: footers_def Let_def string_of_nat.simps digit_def)

lemma env_one_line_simps:
  "splitTextToSize env_one_line fs b w t = [t]"
  "pageWidth env_one_line = 210"
  "pageHeight env_one_line = 297"
  "dateStr env_one_line = ''2 November 2026''"
  "timeStr env_one_line = ''10:00''"
  by (simp_all add: env_one_line_def env_a4_def)

lemma texts_literal:
  "texts \<lparr>yPos = y, page = p, fontSize = f, bold = b, drawn = ops\<rparr> = draw_texts ops"
  by (simp add: texts_def)

lemma report_2_texts:
  \<open>texts (generateComplianceReport env_one_line report_2)
     = [''REAL ESTATE COMPLIANCE REPORT'', ''Generated: 2 November 2026 at 10:00'',
        ''EXECUTIVE SUMMARY'', ''RED FLAG ANALYSIS'', ''Total Red Flags Detected: 2'',
        ''  Critical: 1  |  High: 1  |  Medium: 0  |  Low: 0'',
        ''Red Flag #1: [CRITICAL] POSSESSION_DATE'', ''Domain: possession'',
        ''Issue: No possession date is stated.'', ''Found in: a.pdf'',
        ''Excerpt: "The promoter shall hand over possession...."'',
        ''Red Flag #2: [HIGH] CARPET_AREA'', ''Domain: area'',
        ''Issue: Carpet area is not defined.'', ''Found in: b.pdf'',
        ''Excerpt: "'' @ replicate 150 CHR ''x'' @ ''..."'',
        ''AI ANALYSIS & RECOMMENDATIONS'', ''Review the agreement.'', ''DISCLAIMER'',
        disclaimer, ''Page 1 of 1'', ''CloverAI - MahaRERA Compliance System'']\<close>
  unfolding generateComplianceReport_def Let_def
  by (simp add: pdf_defs new_jsPDF_def
          report_2_def executive_summary_def red_flag_analysis_def red_flag_block_def Let_def
          sources_section_def flag_1_def flag_long_def clause_1_def clause_long_def truthy_def
          addText_env_one_line addSection_env_one_line disclaimer_line_env_one_line
          footers_one_page texts_literal draw_texts_def excerpt_line_def substring0_def
          count_severity_def string_of_nat.simps digit_def env_one_line_simps)

text \<open>
  Claim C10. Let a red flag of a compliance check have a clause source with a filename
  and a non-empty excerpt (without either, the script shows no excerpt). On screen, the
  red-flag markup of the message that \<^verbatim>\<open>addMessage\<close> appends holds, in the item of that flag,
  the clause-source block ending with the first 150 characters of the excerpt, escaped
  for markup, followed by \<^verbatim>\<open>...\<close>, between double quotes; where the escaping has nothing
  to change, the markup holds these characters themselves. The data stored with the
  message for the report are the data received, the excerpt in full, and the report
  built from them draws, for that flag, its heading, domain, issue and filename and then
  the wrapped \<^verbatim>\<open>Excerpt: "\<close>, first 150 characters, \<^verbatim>\<open>..."\<close>. The three dots are appended
  whatever the length: an excerpt of at most 150 characters is drawn whole and still
  gets them.
\<close>

theorem excerpt_truncated_with_ellipsis:
  assumes "clause_source flag = Some src" and "cs_filename src = Some fn" and "fn \<noteq> []"
    and "cs_excerpt src = Some ex" and "ex \<noteq> []"
  shows \<open>let msg = last (chatMessages
                     (addMessage ser role content srcs (Some (fs1 @ flag # fs2)) dec summary st));
             isRedFlag = (case dec of None \<Rightarrow> False | Some d \<Rightarrow> is_red_flag d = Some True);
             colour = (case severityColors (severity flag) of None \<Rightarrow> ''#666'' | Some c \<Rightarrow> c);
             icon = (case severityIcons (severity flag) of None \<Rightarrow> ''[?]'' | Some i \<Rightarrow> i);
             authSupport = take 2 (case authority_support flag of None \<Rightarrow> [] | Some as \<Rightarrow> as)
         in (isComplianceCheck dec \<longrightarrow>
               mv_redFlagsHTML msg
                 = ''<div class="red-flags-container">''
                   @ ''<div class="''
                   @ (if isRedFlag then ''red-flag-header critical'' else ''red-flag-header'')
                   @ ''">''
                   @ (if isRedFlag then ''RED FLAGS DETECTED - Non-Compliant Clauses Found''
                      else ''Potential Issues Found'')
                   @ ''</div>''
                   @ concat (map (red_flag_item_html ser) fs1)
                   @ ''<div class="red-flag-item" style="border-left: 4px solid '' @ colour @ ''">''
                   @ ''<div class="red-flag-title">''
                   @ ''<span class="severity-badge" style="background: '' @ colour @ ''">''
                   @ icon @ '' '' @ severity flag @ ''</span>''
                   @ ''<span class="rule-id">'' @ rule_id flag @ ''</span>''
                   @ ''<span class="domain-badge">'' @ rf_domain flag @ ''</span>''
                   @ ''</div>''
                   @ ''<div class="red-flag-reason">'' @ escapeHtml ser (reason flag) @ ''</div>''
                   @ ''<div class="clause-source">''
                   @ ''<strong>Found in:</strong> '' @ escapeHtml ser fn
                   @ '' '' @ (case cs_section src of None \<Rightarrow> [] | Some s \<Rightarrow> s)
                   @ ''<div class="clause-excerpt">"'' @ escapeHtml ser (take 150 ex) @ ''..."</div>''
                   @ ''</div>''
                   @ (if has_authority_support flag \<noteq> Some False \<and> length authSupport > 0
                      then ''<div class="authority-support"><strong>Authority Reference:</strong>''
                           @ concat (map (auth_item_html ser) authSupport) @ ''</div>''
                      else [])
                   @ ''</div>''
                   @ concat (map (red_flag_item_html ser) fs2)
                   @ ''</div>'')
          \<and> (isComplianceCheck dec \<and> ser (take 150 ex) = take 150 ex
                \<and> CHR 0x0A \<notin> set (take 150 ex) \<longrightarrow>
               (\<exists>pre post. mv_redFlagsHTML msg
                  = pre @ ''<div class="clause-excerpt">"'' @ take 150 ex @ ''..."</div>'' @ post))
          \<and> mv_reportData msg
               = \<lparr>rd_content = content, rd_redFlags = Some (fs1 @ flag # fs2), rd_decision = dec,
                  rd_complianceSummary = summary, rd_sources = srcs\<rparr>
          \<and> (\<exists>pre post. texts (generateComplianceReport e (mv_reportData msg))
                = pre
                  @ splitTextToSize e 10 True (maxWidth e)
                      (''Red Flag #'' @ string_of_nat (length fs1 + 1) @ '': ['' @ severity flag
                       @ ''] '' @ rule_id flag)
                  @ splitTextToSize e 9 False (maxWidth e) (''Domain: '' @ rf_domain flag)
                  @ splitTextToSize e 9 False (maxWidth e) (''Issue: '' @ reason flag)
                  @ splitTextToSize e 9 False (maxWidth e) (''Found in: '' @ fn)
                  @ splitTextToSize e 8 False (maxWidth e)
                      (''Excerpt: "'' @ take 150 ex @ ''..."'')
                  @ post)
          \<and> (length ex \<le> 150 \<longrightarrow>
               (\<exists>pre post. texts (generateComplianceReport e (mv_reportData msg))
                  = pre @ splitTextToSize e 9 False (maxWidth e) (''Found in: '' @ fn)
                    @ splitTextToSize e 8 False (maxWidth e) (''Excerpt: "'' @ ex @ ''..."'')
                    @ post))\<close>
proof -
  define msg where "msg = last (chatMessages
      (addMessage ser role content srcs (Some (fs1 @ flag # fs2)) dec summary st))"
  define data where "data = \<lparr>rd_content = content, rd_redFlags = Some (fs1 @ flag # fs2),
      rd_decision = dec, rd_complianceSummary = summary, rd_sources = srcs\<rparr>"
  define heading where \<open>heading = splitTextToSize e 10 True (maxWidth e)
      (''Red Flag #'' @ string_of_nat (length fs1 + 1) @ '': ['' @ severity flag
       @ ''] '' @ rule_id flag)
    @ splitTextToSize e 9 False (maxWidth e) (''Domain: '' @ rf_domain flag)
    @ splitTextToSize e 9 False (maxWidth e) (''Issue: '' @ reason flag)\<close>
  define found where \<open>found = splitTextToSize e 9 False (maxWidth e) (''Found in: '' @ fn)\<close>
  define shown where \<open>shown = splitTextToSize e 8 False (maxWidth e)
      (''Excerpt: "'' @ take 150 ex @ ''..."'')\<close>
  have html: "mv_redFlagsHTML msg = redFlagsHTML ser dec (Some (fs1 @ flag # fs2))"
    by (simp add: msg_def addMessage_def render_message_def)
  have stored: "mv_reportData msg = data"
    by (simp add: msg_def data_def addMessage_def render_message_def)
  have screen: \<open>isComplianceCheck dec \<Longrightarrow> mv_redFlagsHTML msg
      = ''<div class="red-flags-container">''
        @ ''<div class="''
        @ (if (case dec of None \<Rightarrow> False | Some d \<Rightarrow> is_red_flag d = Some True)
           then ''red-flag-header critical'' else ''red-flag-header'')
        @ ''">''
        @ (if (case dec of None \<Rightarrow> False | Some d \<Rightarrow> is_red_flag d = Some True)
           then ''RED FLAGS DETECTED - Non-Compliant Clauses Found''
           else ''Potential Issues Found'')
        @ ''</div>''
        @ concat (map (red_flag_item_html ser) fs1)
        @ ''<div class="red-flag-item" style="border-left: 4px solid ''
        @ (case severityColors (severity flag) of None \<Rightarrow> ''#666'' | Some c \<Rightarrow> c) @ ''">''
        @ ''<div class="red-flag-title">''
        @ ''<span class="severity-badge" style="background: ''
        @ (case severityColors (severity flag) of None \<Rightarrow> ''#666'' | Some c \<Rightarrow> c) @ ''">''
        @ (case severityIcons (severity flag) of None \<Rightarrow> ''[?]'' | Some i \<Rightarrow> i)
        @ '' '' @ severity flag @ ''</span>''
        @ ''<span class="rule-id">'' @ rule_id flag @ ''</span>''
        @ ''<span class="domain-badge">'' @ rf_domain flag @ ''</span>''
        @ ''</div>''
        @ ''<div class="red-flag-reason">'' @ escapeHtml ser (reason flag) @ ''</div>''
        @ ''<div class="clause-source">''
        @ ''<strong>Found in:</strong> '' @ escapeHtml ser fn
        @ '' '' @ (case cs_section src of None \<Rightarrow> [] | Some s \<Rightarrow> s)
        @ ''<div class="clause-excerpt">"'' @ escapeHtml ser (take 150 ex) @ ''..."</div>''
        @ ''</div>''
        @ (if has_authority_support flag \<noteq> Some False
              \<and> length (take 2 (case authority_support flag of None \<Rightarrow> [] | Some as \<Rightarrow> as)) > 0
           then ''<div class="authority-support"><strong>Authority Reference:</strong>''
                @ concat (map (auth_item_html ser)
                    (take 2 (case authority_support flag of None \<Rightarrow> [] | Some as \<Rightarrow> as)))
                @ ''</div>''
           else [])
        @ ''</div>''
        @ concat (map (red_flag_item_html ser) fs2)
        @ ''</div>''\<close>
    unfolding html by (rule redFlagsHTML_item [OF _ assms])
  have plain: \<open>\<exists>pre post. mv_redFlagsHTML msg
      = pre @ ''<div class="clause-excerpt">"'' @ take 150 ex @ ''..."</div>'' @ post\<close>
    if "isComplianceCheck dec" and "ser (take 150 ex) = take 150 ex"
      and "CHR 0x0A \<notin> set (take 150 ex)"
  proof -
    have e: "escapeHtml ser (take 150 ex) = take 150 ex"
      using that(2,3) by (rule escapeHtml_plain)
    have \<open>\<exists>pre post. mv_redFlagsHTML msg
        = pre @ (''<div class="clause-excerpt">"'' @ take 150 ex @ ''..."</div>'') @ post\<close>
      using redFlagsHTML_excerpt [OF that(1) assms(1) _ assms(4,5), of ser fs1 fs2] assms(2,3)
      unfolding html e by (simp add: truthy_def)
    then show ?thesis by simp
  qed
  obtain pre post where pdf: "texts (generateComplianceReport e data)
      = pre @ heading @ found @ shown @ post"
    using texts_generateComplianceReport [OF assms, of data fs1 fs2 e]
    unfolding heading_def found_def shown_def data_def by force
  have short: \<open>\<exists>pre post. texts (generateComplianceReport e data)
      = pre @ found @ splitTextToSize e 8 False (maxWidth e) (''Excerpt: "'' @ ex @ ''..."'')
        @ post\<close> if "length ex \<le> 150"
  proof -
    have "texts (generateComplianceReport e data) = (pre @ heading) @ found @ shown @ post"
      using pdf by simp
    then show ?thesis
      unfolding shown_def using that by (intro exI [of _ "pre @ heading"] exI [of _ post]) simp
  qed
  have long: "\<exists>pre post. texts (generateComplianceReport e data)
      = pre @ heading @ found @ shown @ post"
    using pdf by blast
  show ?thesis
    unfolding Let_def msg_def [symmetric] stored
    using screen plain short long
    unfolding heading_def found_def shown_def data_def
    by (simp add: append_assoc)
qed

text \<open>
  Claim C10, witness: a compliance check with two red flags, the first with an excerpt
  of 40 characters and the second with one of 200. On screen and in the report the
  first excerpt is whole and the second cut to 150 characters, both followed by the
  three dots, and the data stored with the message are the data received.
\<close>

theorem excerpt_truncated_with_ellipsis_witness:
  \<open>clause_source flag_long = Some clause_long \<and> cs_filename clause_long = Some ''b.pdf''
   \<and> cs_excerpt clause_long = Some (replicate 200 CHR ''x'')
   \<and> isComplianceCheck (Some decision_check)
   \<and> mv_redFlagsHTML (last (chatMessages
         (addMessage id ''assistant'' ''Review the agreement.'' None (Some [flag_1, flag_long])
            (Some decision_check) None initial_state)))
       = ''<div class="red-flags-container">''
         @ ''<div class="red-flag-header critical">''
         @ ''RED FLAGS DETECTED - Non-Compliant Clauses Found</div>''
         @ ''<div class="red-flag-item" style="border-left: 4px solid #dc2626">''
         @ ''<div class="red-flag-title">''
         @ ''<span class="severity-badge" style="background: #dc2626">[!!] CRITICAL</span>''
         @ ''<span class="rule-id">POSSESSION_DATE</span>''
         @ ''<span class="domain-badge">possession</span></div>''
         @ ''<div class="red-flag-reason">No possession date is stated.</div>''
         @ ''<div class="clause-source"><strong>Found in:</strong> a.pdf ''
         @ ''<div class="clause-excerpt">"The promoter shall hand over possession...."</div>''
         @ ''</div></div>''
         @ ''<div class="red-flag-item" style="border-left: 4px solid #ea580c">''
         @ ''<div class="red-flag-title">''
         @ ''<span class="severity-badge" style="background: #ea580c">[!] HIGH</span>''
         @ ''<span class="rule-id">CARPET_AREA</span>''
         @ ''<span class="domain-badge">area</span></div>''
         @ ''<div class="red-flag-reason">Carpet area is not defined.</div>''
         @ ''<div class="clause-source"><strong>Found in:</strong> b.pdf Clause 4''
         @ ''<div class="clause-excerpt">"'' @ replicate 150 CHR ''x'' @ ''..."</div>''
         @ ''</div></div></div>''
   \<and> mv_reportData (last (chatMessages
         (addMessage id ''assistant'' ''Review the agreement.'' None (Some [flag_1, flag_long])
            (Some decision_check) None initial_state))) = report_2
   \<and> texts (generateComplianceReport env_one_line report_2)
       = [''REAL ESTATE COMPLIANCE REPORT'', ''Generated: 2 November 2026 at 10:00'',
          ''EXECUTIVE SUMMARY'', ''RED FLAG ANALYSIS'', ''Total Red Flags Detected: 2'',
          ''  Critical: 1  |  High: 1  |  Medium: 0  |  Low: 0'',
          ''Red Flag #1: [CRITICAL] POSSESSION_DATE'', ''Domain: possession'',
          ''Issue: No possession date is stated.'', ''Found in: a.pdf'',
          ''Excerpt: "The promoter shall hand over possession...."'',
          ''Red Flag #2: [HIGH] CARPET_AREA'', ''Domain: area'',
          ''Issue: Carpet area is not defined.'', ''Found in: b.pdf'',
          ''Excerpt: "'' @ replicate 150 CHR ''x'' @ ''..."'',
          ''AI ANALYSIS & RECOMMENDATIONS'', ''Review the agreement.'', ''DISCLAIMER'',
          disclaimer, ''Page 1 of 1'', ''CloverAI - MahaRERA Compliance System'']\<close>
proof -
  have screen: \<open>redFlagsHTML id (Some decision_check) (Some [flag_1, flag_long])
       = ''<div class="red-flags-container">''
         @ ''<div class="red-flag-header critical">''
         @ ''RED FLAGS DETECTED - Non-Compliant Clauses Found</div>''
         @ ''<div class="red-flag-item" style="border-left: 4px solid #dc2626">''
         @ ''<div class="red-flag-title">''
         @ ''<span class="severity-badge" style="background: #dc2626">[!!] CRITICAL</span>''
         @ ''<span class="rule-id">POSSESSION_DATE</span>''
         @ ''<span class="domain-badge">possession</span></div>''
         @ ''<div class="red-flag-reason">No possession date is stated.</div>''
         @ ''<div class="clause-source"><strong>Found in:</strong> a.pdf ''
         @ ''<div class="clause-excerpt">"The promoter shall hand over possession...."</div>''
         @ ''</div></div>''
         @ ''<div class="red-flag-item" style="border-left: 4px solid #ea580c">''
         @ ''<div class="red-flag-title">''
         @ ''<span class="severity-badge" style="background: #ea580c">[!] HIGH</span>''
         @ ''<span class="rule-id">CARPET_AREA</span>''
         @ ''<span class="domain-badge">area</span></div>''
         @ ''<div class="red-flag-reason">Carpet area is not defined.</div>''
         @ ''<div class="clause-source"><strong>Found in:</strong> b.pdf Clause 4''
         @ ''<div class="clause-excerpt">"'' @ replicate 150 CHR ''x'' @ ''..."</div>''
         @ ''</div></div></div>''\<close>
    by (simp add: redFlagsHTML_def red_flags_container_def red_flag_item_html_def Let_def
          clause_source_html_def clause_excerpt_html_def truthy_def substring0_def or_else_def
          list_or_empty_def isComplianceCheck_def decision_check_def flag_1_def flag_long_def
          clause_1_def clause_long_def severityColors_def severityIcons_def escapeHtml_plain)
  have hyps: "clause_source flag_long = Some clause_long \<and> cs_filename clause_long = Some ''b.pdf''
      \<and> cs_excerpt clause_long = Some (replicate 200 CHR ''x'')
      \<and> isComplianceCheck (Some decision_check)"
    by (simp add: flag_long_def clause_long_def isComplianceCheck_def decision_check_def)
  have stored: "mv_reportData (last (chatMessages
         (addMessage id ''assistant'' ''Review the agreement.'' None (Some [flag_1, flag_long])
            (Some decision_check) None initial_state))) = report_2"
    by (simp add: addMessage_def render_message_def report_2_def)
  have html: "mv_redFlagsHTML (last (chatMessages
         (addMessage id ''assistant'' ''Review the agreement.'' None (Some [flag_1, flag_long])
            (Some decision_check) None initial_state)))
       = redFlagsHTML id (Some decision_check) (Some [flag_1, flag_long])"
    by (simp add: addMessage_def render_message_def)
  have h: "clause_source flag_long = Some clause_long" "cs_filename clause_long = Some ''b.pdf''"
      "''b.pdf'' \<noteq> []" "cs_excerpt clause_long = Some (replicate 200 CHR ''x'')"
      "replicate 200 CHR ''x'' \<noteq> []"
    by (simp_all add: flag_long_def clause_long_def)
  note inst = excerpt_truncated_with_ellipsis [where flag = flag_long and src = clause_long
      and fn = "''b.pdf''" and ex = "replicate 200 CHR ''x''" and ser = id
      and role = "''assistant''" and content = "''Review the agreement.''" and srcs = None
      and ?fs1.0 = "[flag_1]" and ?fs2.0 = "[]" and dec = "Some decision_check"
      and summary = None and st = initial_state and e = env_one_line, OF h]
  show ?thesis
    using inst unfolding html screen stored report_2_texts
    using hyps by blast
qed

section \<open>Properties of the batch results\<close>

text \<open>
  The red-flag lines of an entry: the next height grows by 5 per line, and the lines are
  appended to what is drawn, the same lines on whatever document of the same page.
\<close>

lemma list_red_flags_fst:
  "fst (list_red_flags fs (y, d)) = y + 5 * real (length fs)"
  by (induction fs arbitrary: y d) (simp_all add: algebra_simps)

lemma list_red_flags_snd_aux:
  "snd (list_red_flags fs (y, d\<lparr>drawn := ops\<rparr>))
     = d\<lparr>drawn := ops @ drawn (snd (list_red_flags fs (y, d\<lparr>drawn := []\<rparr>)))\<rparr>"
proof (induction fs arbitrary: y ops)
  case Nil
  then show ?case by simp
next
  case (Cons rf rfs)
  define T where "T = Text By_report (page d) (margin + 5) y
      (''  - ['' @ severity rf @ ''] '' @ rule_id rf @ '': '' @ substring0 60 (reason rf) @ ''...'')"
  have "snd (list_red_flags (rf # rfs) (y, d\<lparr>drawn := ops\<rparr>))
          = snd (list_red_flags rfs (y + 5, d\<lparr>drawn := ops @ [T]\<rparr>))"
    by (simp add: doc_text_def T_def)
  also have "\<dots> = d\<lparr>drawn := (ops @ [T]) @ drawn (snd (list_red_flags rfs (y + 5, d\<lparr>drawn := []\<rparr>)))\<rparr>"
    by (rule Cons.IH)
  finally have l: "snd (list_red_flags (rf # rfs) (y, d\<lparr>drawn := ops\<rparr>))
     = d\<lparr>drawn := ops @ [T] @ drawn (snd (list_red_flags rfs (y + 5, d\<lparr>drawn := []\<rparr>)))\<rparr>"
    by simp
  have "snd (list_red_flags (rf # rfs) (y, d\<lparr>drawn := []\<rparr>))
          = snd (list_red_flags rfs (y + 5, d\<lparr>drawn := [T]\<rparr>))"
    by (simp add: doc_text_def T_def)
  also have "\<dots> = d\<lparr>drawn := [T] @ drawn (snd (list_red_flags rfs (y + 5, d\<lparr>drawn := []\<rparr>)))\<rparr>"
    by (rule Cons.IH)
  finally have r: "drawn (snd (list_red_flags (rf # rfs) (y, d\<lparr>drawn := []\<rparr>)))
     = [T] @ drawn (snd (list_red_flags rfs (y + 5, d\<lparr>drawn := []\<rparr>)))"
    by simp
  show ?case unfolding l r ..
qed

lemma list_red_flags_drawn_Cons:
  "drawn (snd (list_red_flags fs (y, d\<lparr>drawn := op # ops\<rparr>)))
     = (op # ops) @ drawn (snd (list_red_flags fs (y, d\<lparr>drawn := []\<rparr>)))"
  by (simp add: list_red_flags_snd_aux [where ops = "op # ops"])

lemma list_red_flags_page_only:
  "page d = page d' \<Longrightarrow>
   drawn (snd (list_red_flags fs (y, d\<lparr>drawn := []\<rparr>)))
     = drawn (snd (list_red_flags fs (y, d'\<lparr>drawn := []\<rparr>)))"
proof (induction fs arbitrary: y)
  case Nil
  then show ?case by simp
next
  case (Cons rf rfs)
  show ?case
    using Cons.IH [OF Cons.prems, of "y + 5"] Cons.prems
    by (simp add: doc_text_def list_red_flags_drawn_Cons)
qed

lemma list_red_flags_snd:
  "snd (list_red_flags fs (y, d)) = d\<lparr>drawn := drawn d @ red_flag_lines fs y (page d)\<rparr>"
proof -
  have "snd (list_red_flags fs (y, d\<lparr>drawn := drawn d\<rparr>))
          = d\<lparr>drawn := drawn d @ drawn (snd (list_red_flags fs (y, d\<lparr>drawn := []\<rparr>)))\<rparr>"
    by (rule list_red_flags_snd_aux)
  moreover have "drawn (snd (list_red_flags fs (y, d\<lparr>drawn := []\<rparr>)))
          = drawn (snd (list_red_flags fs (y, (blank_at (0, page d))\<lparr>drawn := []\<rparr>)))"
    by (rule list_red_flags_page_only) (simp add: blank_at_def)
  ultimately show ?thesis
    by (simp add: red_flag_lines_def blank_at_def)
qed

lemma list_red_flags_eq:
  "list_red_flags fs (y, d)
     = (y + 5 * real (length fs), d\<lparr>drawn := drawn d @ red_flag_lines fs y (page d)\<rparr>)"
  by (simp add: prod_eq_iff list_red_flags_fst list_red_flags_snd)


text \<open>Cursor, page and recorded calls after each primitive.\<close>

lemma yPos_prims [simp]:
  "yPos (doc_text org s x y d) = yPos d"
  "yPos (doc_line x1 y1 x2 y2 d) = yPos d"
  "yPos (doc_rect x1 y1 x2 y2 d) = yPos d"
  "yPos (setFont b d) = yPos d"
  "yPos (setFontSize fs d) = yPos d"
  "yPos (move dy d) = yPos d + dy"
  "yPos (checkPageBreak e n d) = (if yPos d + n > pageHeight e - 30 then 20 else yPos d)"
  "yPos (snd (list_red_flags rfs (y, d))) = yPos d"
  by (simp_all add: pdf_defs checkPageBreak_def list_red_flags_snd)

lemma page_prims [simp]:
  "page (doc_text org s x y d) = page d"
  "page (doc_line x1 y1 x2 y2 d) = page d"
  "page (doc_rect x1 y1 x2 y2 d) = page d"
  "page (setFont b d) = page d"
  "page (setFontSize fs d) = page d"
  "page (move dy d) = page d"
  "page (checkPageBreak e n d) = (if yPos d + n > pageHeight e - 30 then page d + 1 else page d)"
  "page (snd (list_red_flags rfs (y, d))) = page d"
  by (simp_all add: pdf_defs checkPageBreak_def list_red_flags_snd)

lemma drawn_prims [simp]:
  "drawn (doc_text org s x y d) = drawn d @ [Text org (page d) x y s]"
  "drawn (doc_line x1 y1 x2 y2 d) = drawn d @ [Line (page d) x1 y1 x2 y2]"
  "drawn (doc_rect x1 y1 x2 y2 d) = drawn d @ [Rect (page d) x1 y1 x2 y2]"
  "drawn (setFont b d) = drawn d"
  "drawn (setFontSize fs d) = drawn d"
  "drawn (move dy d) = drawn d"
  "drawn (checkPageBreak e n d) = drawn d"
  "drawn (snd (list_red_flags rfs (y, d))) = drawn d @ red_flag_lines rfs y (page d)"
  by (simp_all add: pdf_defs checkPageBreak_def list_red_flags_snd)

lemma blank_at_proj [simp]:
  "yPos (blank_at yp) = fst yp" "page (blank_at yp) = snd yp" "drawn (blank_at yp) = []"
  by (simp_all add: blank_at_def)

text \<open>
  An entry appends what it draws from the cursor and page it finds, and leaves the
  cursor where \<^term>\<open>entry_layout\<close> says, whatever the entry holds.
\<close>

lemma batch_entry_drawn:
  "drawn (batch_entry e idx r d) = drawn d @ entry_drawn e idx r (yPos d, page d)"
  by (simp add: batch_entry_def entry_drawn_def Let_def case_prod_beta list_red_flags_fst)

lemma batch_entry_layout:
  "(yPos (batch_entry e idx r d), page (batch_entry e idx r d)) = entry_layout e (yPos d, page d)"
  by (simp add: batch_entry_def entry_layout_def Let_def case_prod_beta)

lemma forEach_batch_entry_drawn:
  "drawn (forEach_idx (batch_entry e) i rs d)
     = drawn d @ concat (map (\<lambda>k. entry_drawn e (i + k) (rs ! k)
                                   ((entry_layout e ^^ k) (yPos d, page d))) [0..<length rs])"
proof (induction rs arbitrary: i d)
  case Nil
  then show ?case by simp
next
  case (Cons r rs)
  have "map (\<lambda>k. entry_drawn e (i + k) ((r # rs) ! k) ((entry_layout e ^^ k) (yPos d, page d)))
          [0..<length (r # rs)]
        = entry_drawn e i r (yPos d, page d)
          # map (\<lambda>k. entry_drawn e (i + 1 + k) (rs ! k)
                   ((entry_layout e ^^ k) (entry_layout e (yPos d, page d)))) [0..<length rs]"
    by (simp add: map_upt_Suc funpow_swap1 del: upt_Suc)
  then show ?case
    by (simp add: Cons.IH batch_entry_drawn batch_entry_layout del: upt_Suc)
qed


lemma batch_doc_results_html_append:
  "batch_doc_results_html (pre @ r # post)
     = batch_doc_results_html pre @ batch_doc_result_html r @ batch_doc_results_html post"
  by (simp add: batch_doc_results_html_def)

lemma draw_texts_simps [simp]:
  "draw_texts [] = []"
  "draw_texts (Text org p x y s # ops) = s # draw_texts ops"
  "draw_texts (Line p x1 y1 x2 y2 # ops) = draw_texts ops"
  "draw_texts (Rect p x1 y1 x2 y2 # ops) = draw_texts ops"
  "draw_texts (ops @ ops') = draw_texts ops @ draw_texts ops'"
  by (simp_all add: draw_texts_def)

lemma entry_texts_error:
  "br_status r = ''error'' \<Longrightarrow>
   draw_texts (entry_drawn e idx r yp)
     = [string_of_nat (idx + 1) @ ''. '' @ br_filename r,
        ''Error: '' @ (case br_error r of Undefined \<Rightarrow> ''undefined'' | Null \<Rightarrow> ''null''
                       | Val s \<Rightarrow> s)]"
  by (simp add: entry_drawn_def batch_entry_def Let_def show_string_def)

lemma entry_texts_ok:
  "br_status r \<noteq> ''error'' \<Longrightarrow>
   take 3 (draw_texts (entry_drawn e idx r yp))
     = [string_of_nat (idx + 1) @ ''. '' @ br_filename r,
        ''Red Flags: ''
          @ string_of_nat (case br_red_flags r of None \<Rightarrow> 0 | Some fs \<Rightarrow> length fs),
        ''Required Clauses: ''
          @ string_of_nat (case br_compliance_summary r of None \<Rightarrow> 0
               | Some cs \<Rightarrow> (case compliant_count cs of Val n \<Rightarrow> n | _ \<Rightarrow> 0))
          @ ''/''
          @ string_of_nat (case br_compliance_summary r of None \<Rightarrow> 0
               | Some cs \<Rightarrow> (case total_checks cs of Val n \<Rightarrow> n | _ \<Rightarrow> 0))]"
  by (simp add: entry_drawn_def batch_entry_def Let_def case_prod_beta rfCount_def
        compliant_of_def total_of_def count_or_0_def split: field.splits option.splits)

text \<open>
  The loop of the report starts at 123 on page 1; the disclaimer and the footers only
  append to what is drawn.
\<close>

lemma batch_header_cursor:
  "yPos (batch_header e summary) = 123 \<and> page (batch_header e summary) = 1"
  by (simp add: batch_header_def Let_def new_jsPDF_def)

lemma fold_extends:
  assumes step: "\<And>x dd. \<exists>ops. drawn (f x dd) = drawn dd @ ops"
  shows "\<exists>ops. drawn (fold f xs d) = drawn d @ ops"
proof (induction xs arbitrary: d)
  case Nil
  then show ?case by simp
next
  case (Cons x xs)
  obtain o1 where o1: "drawn (f x d) = drawn d @ o1" using step by blast
  obtain o2 where o2: "drawn (fold f xs (f x d)) = drawn (f x d) @ o2" using Cons.IH by blast
  show ?case using o1 o2 by simp
qed

lemma drawn_footers:
  "\<exists>ops. drawn (footers e label d) = drawn d @ ops"
  unfolding footers_def Let_def by (rule fold_extends) (simp add: pdf_defs)

lemma drawn_forEach_text:
  "\<exists>ops. drawn (forEach_idx (\<lambda>i l dd. doc_text By_report l x (g dd i) dd) i ls d) = drawn d @ ops"
proof (induction ls arbitrary: i d)
  case Nil
  then show ?case by simp
next
  case (Cons l ls)
  obtain o2 where "drawn (forEach_idx (\<lambda>i l dd. doc_text By_report l x (g dd i) dd) (i + 1) ls
      (doc_text By_report l x (g d i) d)) = drawn (doc_text By_report l x (g d i) d) @ o2"
    using Cons.IH by blast
  then show ?case by simp
qed

lemma drawn_batch_footer:
  "\<exists>ops. drawn (batch_footer e d) = drawn d @ ops"
proof -
  define d17 where "d17 = setFontSize 8 (doc_rect margin (yPos (move 10 (checkPageBreak e 40 d)) - 5)
      (maxWidth e) 25 (move 10 (checkPageBreak e 40 d)))"
  define d18 where "d18 = forEach_idx (\<lambda>i l dd. doc_text By_report l (margin + 5) (yPos dd + real i * 4) dd) 0
                  (splitTextToSize e (fontSize d17) (bold d17) (maxWidth e - 10) batch_disclaimer) d17"
  have r: "batch_footer e d = footers e ''CloverAI - Batch Compliance Report'' d18"
    unfolding batch_footer_def Let_def d18_def d17_def ..
  obtain o1 where o1: "drawn d17 = drawn d @ o1"
    unfolding d17_def by simp
  obtain o2 where o2: "drawn d18 = drawn d17 @ o2"
    unfolding d18_def using drawn_forEach_text [of "margin + 5" "\<lambda>dd i. yPos dd + real i * 4"] by blast
  obtain o3 where o3: "drawn (footers e ''CloverAI - Batch Compliance Report'' d18) = drawn d18 @ o3"
    using drawn_footers by blast
  show ?thesis
    unfolding r using o1 o2 o3 by simp
qed

lemma drawn_generateBatchPdfReport:
  "\<exists>ops. drawn (generateBatchPdfReport e summary rs)
     = drawn (batch_header e summary)
       @ concat (map (\<lambda>k. entry_drawn e k (rs ! k) ((entry_layout e ^^ k) (123, 1))) [0..<length rs])
       @ ops"
proof -
  obtain ops where "drawn (generateBatchPdfReport e summary rs)
      = drawn (forEach_idx (batch_entry e) 0 rs (batch_header e summary)) @ ops"
    unfolding generateBatchPdfReport_def using drawn_batch_footer by blast
  then show ?thesis
    by (simp add: forEach_batch_entry_drawn batch_header_cursor)
qed

lemmas res_defs = result_ok_1_def result_err_def result_ok_2_def flag_1_def clause_1_def
  summary_1_def

text \<open>The markup of a batch around the markup of its entries, and the markup of one entry.\<close>

lemma resultsHTML_entries:
  \<open>\<exists>head. \<forall>rs. resultsHTML summary rs
      = head @ concat (map batch_doc_result_html rs) @ ''</div></div>''\<close>
proof -
  define head where \<open>head = ''<div class="batch-results-container">''
     @ ''<div class="batch-results-header">Batch Compliance Report - ''
     @ string_of_nat (total_documents summary) @ '' Documents Analyzed</div>''
     @ ''<div class="batch-summary-grid">''
     @ summary_card_html ''batch-summary-card'' (processed summary) ''Processed''
     @ summary_card_html
         (''batch-summary-card ''
          @ (if documents_with_issues summary > 0 then ''warning'' else ''success''))
         (documents_with_issues summary) ''With Issues''
     @ summary_card_html
         (''batch-summary-card '' @ (if total_critical summary > 0 then ''critical'' else []))
         (total_red_flags summary) ''Red Flags''
     @ summary_card_html
         (''batch-summary-card ''
          @ (if total_missing_clauses summary > 0 then ''warning'' else ''success''))
         (total_missing_clauses summary) ''Missing Clauses''
     @ ''</div>''
     @ ''<div class="batch-doc-results">''\<close>
  have \<open>\<forall>rs. resultsHTML summary rs
      = head @ concat (map batch_doc_result_html rs) @ ''</div></div>''\<close>
    by (simp add: resultsHTML_def head_def batch_doc_results_html_def)
  then show ?thesis by blast
qed

lemma batch_doc_result_html_error:
  \<open>br_status r = ''error'' \<Longrightarrow>
   batch_doc_result_html r
     = ''<div class="batch-doc-result ''
       @ (if (case br_red_flags r of None \<Rightarrow> False
              | Some fs \<Rightarrow> list_ex (\<lambda>f. severity f = ''CRITICAL'') fs) then ''critical''
          else if (case br_red_flags r of None \<Rightarrow> False | Some fs \<Rightarrow> fs \<noteq> [])
                  \<or> (case br_compliance_summary r of None \<Rightarrow> False
                      | Some cs \<Rightarrow> \<not> is_compliant cs) then ''has-issues''
          else [])
       @ ''">''
       @ ''<div class="doc-name">'' @ br_filename r @ ''</div>''
       @ ''<div class="doc-stats">''
       @ ''<span style="color: #dc2626;">Error: ''
       @ (case br_error r of Undefined \<Rightarrow> ''undefined'' | Null \<Rightarrow> ''null'' | Val s \<Rightarrow> s)
       @ ''</span>''
       @ ''</div></div>''\<close>
  by (simp add: batch_doc_result_html_def doc_stats_html_def Let_def isCritical_def hasIssues_def
        show_string_def split: option.splits)

lemma batch_doc_result_html_ok:
  \<open>br_status r \<noteq> ''error'' \<Longrightarrow>
   batch_doc_result_html r
     = ''<div class="batch-doc-result ''
       @ (if (case br_red_flags r of None \<Rightarrow> False
              | Some fs \<Rightarrow> list_ex (\<lambda>f. severity f = ''CRITICAL'') fs) then ''critical''
          else if (case br_red_flags r of None \<Rightarrow> False | Some fs \<Rightarrow> fs \<noteq> [])
                  \<or> (case br_compliance_summary r of None \<Rightarrow> False
                      | Some cs \<Rightarrow> \<not> is_compliant cs) then ''has-issues''
          else [])
       @ ''">''
       @ ''<div class="doc-name">'' @ br_filename r @ ''</div>''
       @ ''<div class="doc-stats">''
       @ ''Red Flags: ''
       @ string_of_nat (case br_red_flags r of None \<Rightarrow> 0 | Some fs \<Rightarrow> length fs)
       @ '' | Clauses Found: ''
       @ string_of_nat (case br_compliance_summary r of None \<Rightarrow> 0
            | Some cs \<Rightarrow> (case compliant_count cs of Val n \<Rightarrow> n | _ \<Rightarrow> 0))
       @ ''/''
       @ string_of_nat (case br_compliance_summary r of None \<Rightarrow> 0
            | Some cs \<Rightarrow> (case total_checks cs of Val n \<Rightarrow> n | _ \<Rightarrow> 0))
       @ ''</div></div>''\<close>
  by (simp add: batch_doc_result_html_def doc_stats_html_def Let_def isCritical_def hasIssues_def
        rfCount_def compliant_of_def total_of_def count_or_0_def
        split: option.splits field.splits)

text \<open>
  Where the cursor stands after the loop, and the texts of the disclaimer and of the
  footers.
\<close>

lemma forEach_batch_entry_layout:
  "(yPos (forEach_idx (batch_entry e) i rs d), page (forEach_idx (batch_entry e) i rs d))
     = (entry_layout e ^^ length rs) (yPos d, page d)"
proof (induction rs arbitrary: i d)
  case Nil
  then show ?case by simp
next
  case (Cons r rs)
  show ?case
    using Cons.IH [of "i + 1" "batch_entry e i r d"]
    by (simp add: batch_entry_layout funpow_swap1)
qed

lemma forEach_batch_entry_cursor:
  "yPos (forEach_idx (batch_entry e) i rs d) = fst ((entry_layout e ^^ length rs) (yPos d, page d))"
  "page (forEach_idx (batch_entry e) i rs d) = snd ((entry_layout e ^^ length rs) (yPos d, page d))"
  using forEach_batch_entry_layout [of e i rs d] by (simp_all add: prod_eq_iff)

lemma texts_fold:
  assumes "\<And>x dd. texts (f x dd) = texts dd @ g x"
  shows "texts (fold f xs d) = texts d @ concat (map g xs)"
  by (induction xs arbitrary: d) (simp_all add: assms)

lemma texts_footers:
  "texts (footers e label d)
     = texts d @ concat (map (\<lambda>i. [''Page '' @ string_of_nat i @ '' of '' @ string_of_nat (page d),
                                     label]) [1..<page d + 1])"
  unfolding footers_def Let_def
  by (rule texts_fold) simp

lemma forEach_text:
  "texts (forEach_idx (\<lambda>i l dd. doc_text By_report l x (g dd i) dd) i ls d) = texts d @ ls
   \<and> page (forEach_idx (\<lambda>i l dd. doc_text By_report l x (g dd i) dd) i ls d) = page d"
  by (induction ls arbitrary: i d) simp_all

lemma texts_batch_footer:
  "texts (batch_footer env_one_line d)
     = texts d @ [batch_disclaimer]
       @ concat (map (\<lambda>i. [''Page '' @ string_of_nat i @ '' of ''
                               @ string_of_nat (page (checkPageBreak env_one_line 40 d)),
                            ''CloverAI - Batch Compliance Report''])
           [1..<page (checkPageBreak env_one_line 40 d) + 1])"
  by (simp add: batch_footer_def Let_def texts_footers forEach_text env_one_line_simps
        checkPageBreak_def)

lemma texts_batch_header:
  "texts (batch_header e summary)
     = [''BATCH COMPLIANCE REPORT'',
        string_of_nat (total_documents summary) @ '' Documents Analyzed'',
        ''Generated: '' @ dateStr e @ '' at '' @ timeStr e,
        ''EXECUTIVE SUMMARY'',
        ''Documents Processed: '' @ string_of_nat (processed summary) @ ''/''
          @ string_of_nat (total_documents summary),
        ''Documents with Issues: '' @ string_of_nat (documents_with_issues summary),
        ''Total Red Flags: '' @ string_of_nat (total_red_flags summary) @ '' (''
          @ string_of_nat (total_critical summary) @ '' Critical)'',
        ''Missing Required Clauses: '' @ string_of_nat (total_missing_clauses summary),
        ''DOCUMENT-WISE ANALYSIS'']"
  by (simp add: batch_header_def Let_def new_jsPDF_def texts_def)

lemma batch_1_texts:
  "texts (generateBatchPdfReport env_one_line batch_summary_1 [result_ok_1, result_err, result_ok_2])
     = [''BATCH COMPLIANCE REPORT'', ''3 Documents Analyzed'',
        ''Generated: 2 November 2026 at 10:00'', ''EXECUTIVE SUMMARY'',
        ''Documents Processed: 2/3'', ''Documents with Issues: 1'',
        ''Total Red Flags: 1 (1 Critical)'', ''Missing Required Clauses: 3'',
        ''DOCUMENT-WISE ANALYSIS'',
        ''1. a.pdf'', ''Red Flags: 1'', ''Required Clauses: 2/5'',
        ''  - [CRITICAL] POSSESSION_DATE: No possession date is stated....'',
        ''2. b.pdf'', ''Error: OCR failed'',
        ''3. c.pdf'', ''Red Flags: 0'', ''Required Clauses: 0/0'',
        batch_disclaimer,
        ''Page 1 of 2'', ''CloverAI - Batch Compliance Report'',
        ''Page 2 of 2'', ''CloverAI - Batch Compliance Report'']"
proof -
  have loop: "texts (forEach_idx (batch_entry env_one_line) 0 [result_ok_1, result_err, result_ok_2]
                 (batch_header env_one_line batch_summary_1))
      = [''BATCH COMPLIANCE REPORT'', ''3 Documents Analyzed'',
        ''Generated: 2 November 2026 at 10:00'', ''EXECUTIVE SUMMARY'',
        ''Documents Processed: 2/3'', ''Documents with Issues: 1'',
        ''Total Red Flags: 1 (1 Critical)'', ''Missing Required Clauses: 3'',
        ''DOCUMENT-WISE ANALYSIS'',
        ''1. a.pdf'', ''Red Flags: 1'', ''Required Clauses: 2/5'',
        ''  - [CRITICAL] POSSESSION_DATE: No possession date is stated....'',
        ''2. b.pdf'', ''Error: OCR failed'',
        ''3. c.pdf'', ''Red Flags: 0'', ''Required Clauses: 0/0'']"
    using texts_batch_header [of env_one_line batch_summary_1]
    by (simp add: texts_def forEach_batch_entry_drawn entry_drawn_def batch_entry_def Let_def
          result_ok_1_def result_err_def result_ok_2_def flag_1_def clause_1_def summary_1_def
          batch_summary_1_def show_string_def rfCount_def compliant_of_def total_of_def
          count_or_0_def substring0_def string_of_nat.simps digit_def env_one_line_simps
          red_flag_lines_def)
  have page: "page (checkPageBreak env_one_line 40
                 (forEach_idx (batch_entry env_one_line) 0 [result_ok_1, result_err, result_ok_2]
                    (batch_header env_one_line batch_summary_1))) = 2"
    by (simp add: forEach_batch_entry_cursor batch_header_cursor entry_layout_def
          env_one_line_simps numeral_3_eq_3 del: forEach_idx.simps)
  show ?thesis
    unfolding generateBatchPdfReport_def texts_batch_footer page loop
    by (simp add: string_of_nat.simps digit_def upt_rec)
qed

text \<open>
  Claim C8. On screen, the markup of a batch is a head that the entries do not enter,
  then the concatenation of the markup of its entries, each a function of that entry
  alone. The markup of an entry with status \<^verbatim>\<open>error\<close> holds its name and its error
  marker, that of any other entry its name, its red-flag count and its clause counts.
  In the PDF, what the loop over the results draws is the concatenation of what each
  entry draws, and what entry \<open>k\<close> draws depends only on its index, on the entry itself
  and on where the cursor stands after \<open>k\<close> entries, which is the same whatever the
  entries before it hold: every entry, failed or not, takes the page-break check and
  40 units. In the report the loop starts at 123 on page 1, and what it draws stands
  between the header and the disclaimer. An entry with status \<^verbatim>\<open>error\<close> draws its name
  and its error; any other entry draws its name, its red-flag count and its clause
  counts first.
\<close>

theorem batch_entries_rendered_independently:
  \<open>let rfs = string_of_nat (case br_red_flags r of None \<Rightarrow> 0 | Some fs \<Rightarrow> length fs);
       compliant = string_of_nat (case br_compliance_summary r of None \<Rightarrow> 0
                     | Some cs \<Rightarrow> (case compliant_count cs of Val n \<Rightarrow> n | _ \<Rightarrow> 0));
       total = string_of_nat (case br_compliance_summary r of None \<Rightarrow> 0
                 | Some cs \<Rightarrow> (case total_checks cs of Val n \<Rightarrow> n | _ \<Rightarrow> 0));
       err = (case br_error r of Undefined \<Rightarrow> ''undefined'' | Null \<Rightarrow> ''null'' | Val s \<Rightarrow> s);
       className =
         (if (case br_red_flags r of None \<Rightarrow> False
              | Some fs \<Rightarrow> list_ex (\<lambda>f. severity f = ''CRITICAL'') fs) then ''critical''
          else if (case br_red_flags r of None \<Rightarrow> False | Some fs \<Rightarrow> fs \<noteq> [])
                  \<or> (case br_compliance_summary r of None \<Rightarrow> False
                      | Some cs \<Rightarrow> \<not> is_compliant cs) then ''has-issues''
          else [])
   in (\<exists>head. \<forall>results. resultsHTML summary results
          = head @ concat (map batch_doc_result_html results) @ ''</div></div>'')
    \<and> batch_doc_results_html (pre @ r # post)
        = batch_doc_results_html pre @ batch_doc_result_html r @ batch_doc_results_html post
    \<and> (br_status r = ''error'' \<longrightarrow>
         batch_doc_result_html r
           = ''<div class="batch-doc-result '' @ className @ ''">''
             @ ''<div class="doc-name">'' @ br_filename r @ ''</div>''
             @ ''<div class="doc-stats">''
             @ ''<span style="color: #dc2626;">Error: '' @ err @ ''</span>''
             @ ''</div></div>'')
    \<and> (br_status r \<noteq> ''error'' \<longrightarrow>
         batch_doc_result_html r
           = ''<div class="batch-doc-result '' @ className @ ''">''
             @ ''<div class="doc-name">'' @ br_filename r @ ''</div>''
             @ ''<div class="doc-stats">''
             @ ''Red Flags: '' @ rfs @ '' | Clauses Found: '' @ compliant @ ''/'' @ total
             @ ''</div></div>'')
    \<and> (br_status r = ''error'' \<longrightarrow>
         doc_stats_html r = ''<span style="color: #dc2626;">Error: '' @ err @ ''</span>'')
    \<and> (br_status r \<noteq> ''error'' \<longrightarrow>
         doc_stats_html r
           = ''Red Flags: '' @ rfs @ '' | Clauses Found: '' @ compliant @ ''/'' @ total)
    \<and> drawn (forEach_idx (batch_entry e) i rs d)
        = drawn d @ concat (map (\<lambda>k. entry_drawn e (i + k) (rs ! k)
                                      ((entry_layout e ^^ k) (yPos d, page d))) [0..<length rs])
    \<and> (\<exists>ops. drawn (generateBatchPdfReport e summary rs)
          = drawn (batch_header e summary)
            @ concat (map (\<lambda>k. entry_drawn e k (rs ! k) ((entry_layout e ^^ k) (123, 1)))
                [0..<length rs])
            @ ops)
    \<and> (br_status r = ''error'' \<longrightarrow>
         draw_texts (entry_drawn e idx r yp)
           = [string_of_nat (idx + 1) @ ''. '' @ br_filename r, ''Error: '' @ err])
    \<and> (br_status r \<noteq> ''error'' \<longrightarrow>
         take 3 (draw_texts (entry_drawn e idx r yp))
           = [string_of_nat (idx + 1) @ ''. '' @ br_filename r,
              ''Red Flags: '' @ rfs,
              ''Required Clauses: '' @ compliant @ ''/'' @ total])\<close>
proof -
  have stats_error: \<open>doc_stats_html r
      = ''<span style="color: #dc2626;">Error: ''
        @ (case br_error r of Undefined \<Rightarrow> ''undefined'' | Null \<Rightarrow> ''null'' | Val s \<Rightarrow> s)
        @ ''</span>''\<close> if "br_status r = ''error''"
    using that by (simp add: doc_stats_html_def show_string_def)
  have stats_ok: \<open>doc_stats_html r
      = ''Red Flags: ''
        @ string_of_nat (case br_red_flags r of None \<Rightarrow> 0 | Some fs \<Rightarrow> length fs)
        @ '' | Clauses Found: ''
        @ string_of_nat (case br_compliance_summary r of None \<Rightarrow> 0
             | Some cs \<Rightarrow> (case compliant_count cs of Val n \<Rightarrow> n | _ \<Rightarrow> 0))
        @ ''/''
        @ string_of_nat (case br_compliance_summary r of None \<Rightarrow> 0
             | Some cs \<Rightarrow> (case total_checks cs of Val n \<Rightarrow> n | _ \<Rightarrow> 0))\<close>
    if "br_status r \<noteq> ''error''"
    using that
    by (simp add: doc_stats_html_def rfCount_def compliant_of_def total_of_def count_or_0_def
          split: option.splits field.splits)
  show ?thesis
    unfolding Let_def
    using resultsHTML_entries [of summary] drawn_generateBatchPdfReport [of e summary rs]
      batch_doc_result_html_error [of r] batch_doc_result_html_ok [of r] stats_error stats_ok
      entry_texts_error [of r e idx yp] entry_texts_ok [of r e idx yp]
    by (simp add: batch_doc_results_html_append forEach_batch_entry_drawn)
qed

text \<open>
  Claim C8, witness: a batch of three whose second entry failed (scenario C of the
  specification), the first with one critical red flag and two of five clauses found.
  On screen the first and the third entry show their counts and the second its error;
  in the PDF the loop draws the three entries as it draws them on their own, at 123,
  163 and 203 on page 1, and the report holds the same texts.
\<close>

theorem batch_entries_rendered_independently_witness:
  \<open>br_status result_err = ''error'' \<and> br_status result_ok_1 \<noteq> ''error''
   \<and> resultsHTML batch_summary_1 [result_ok_1, result_err, result_ok_2]
       = ''<div class="batch-results-container">''
         @ ''<div class="batch-results-header">Batch Compliance Report - 3 Documents Analyzed</div>''
         @ ''<div class="batch-summary-grid">''
         @ ''<div class="batch-summary-card"><div class="count">2</div>''
         @ ''<div class="label">Processed</div></div>''
         @ ''<div class="batch-summary-card warning"><div class="count">1</div>''
         @ ''<div class="label">With Issues</div></div>''
         @ ''<div class="batch-summary-card critical"><div class="count">1</div>''
         @ ''<div class="label">Red Flags</div></div>''
         @ ''<div class="batch-summary-card warning"><div class="count">3</div>''
         @ ''<div class="label">Missing Clauses</div></div>''
         @ ''</div>''
         @ ''<div class="batch-doc-results">''
         @ ''<div class="batch-doc-result critical"><div class="doc-name">a.pdf</div>''
         @ ''<div class="doc-stats">Red Flags: 1 | Clauses Found: 2/5</div></div>''
         @ ''<div class="batch-doc-result "><div class="doc-name">b.pdf</div>''
         @ ''<div class="doc-stats"><span style="color: #dc2626;">Error: OCR failed</span></div></div>''
         @ ''<div class="batch-doc-result "><div class="doc-name">c.pdf</div>''
         @ ''<div class="doc-stats">Red Flags: 0 | Clauses Found: 0/0</div></div>''
         @ ''</div></div>''
   \<and> batch_doc_result_html result_ok_1
       = ''<div class="batch-doc-result critical"><div class="doc-name">a.pdf</div>''
         @ ''<div class="doc-stats">Red Flags: 1 | Clauses Found: 2/5</div></div>''
   \<and> batch_doc_result_html result_err
       = ''<div class="batch-doc-result "><div class="doc-name">b.pdf</div>''
         @ ''<div class="doc-stats"><span style="color: #dc2626;">Error: OCR failed</span></div></div>''
   \<and> drawn (forEach_idx (batch_entry env_a4) 0 [result_ok_1, result_err, result_ok_2]
         (batch_header env_a4 batch_summary_1))
       = drawn (batch_header env_a4 batch_summary_1)
         @ entry_drawn env_a4 0 result_ok_1 (123, 1)
         @ entry_drawn env_a4 1 result_err (163, 1)
         @ entry_drawn env_a4 2 result_ok_2 (203, 1)
   \<and> draw_texts (entry_drawn env_a4 0 result_ok_1 (123, 1))
       = [''1. a.pdf'', ''Red Flags: 1'', ''Required Clauses: 2/5'',
          ''  - [CRITICAL] POSSESSION_DATE: No possession date is stated....'']
   \<and> draw_texts (entry_drawn env_a4 1 result_err (163, 1)) = [''2. b.pdf'', ''Error: OCR failed'']
   \<and> draw_texts (entry_drawn env_a4 2 result_ok_2 (203, 1))
       = [''3. c.pdf'', ''Red Flags: 0'', ''Required Clauses: 0/0'']
   \<and> texts (generateBatchPdfReport env_one_line batch_summary_1
         [result_ok_1, result_err, result_ok_2])
       = [''BATCH COMPLIANCE REPORT'', ''3 Documents Analyzed'',
          ''Generated: 2 November 2026 at 10:00'', ''EXECUTIVE SUMMARY'',
          ''Documents Processed: 2/3'', ''Documents with Issues: 1'',
          ''Total Red Flags: 1 (1 Critical)'', ''Missing Required Clauses: 3'',
          ''DOCUMENT-WISE ANALYSIS'',
          ''1. a.pdf'', ''Red Flags: 1'', ''Required Clauses: 2/5'',
          ''  - [CRITICAL] POSSESSION_DATE: No possession date is stated....'',
          ''2. b.pdf'', ''Error: OCR failed'',
          ''3. c.pdf'', ''Red Flags: 0'', ''Required Clauses: 0/0'',
          batch_disclaimer,
          ''Page 1 of 2'', ''CloverAI - Batch Compliance Report'',
          ''Page 2 of 2'', ''CloverAI - Batch Compliance Report'']\<close>
proof -
  have screen: \<open>resultsHTML batch_summary_1 [result_ok_1, result_err, result_ok_2]
       = ''<div class="batch-results-container">''
         @ ''<div class="batch-results-header">Batch Compliance Report - 3 Documents Analyzed</div>''
         @ ''<div class="batch-summary-grid">''
         @ ''<div class="batch-summary-card"><div class="count">2</div>''
         @ ''<div class="label">Processed</div></div>''
         @ ''<div class="batch-summary-card warning"><div class="count">1</div>''
         @ ''<div class="label">With Issues</div></div>''
         @ ''<div class="batch-summary-card critical"><div class="count">1</div>''
         @ ''<div class="label">Red Flags</div></div>''
         @ ''<div class="batch-summary-card warning"><div class="count">3</div>''
         @ ''<div class="label">Missing Clauses</div></div>''
         @ ''</div>''
         @ ''<div class="batch-doc-results">''
         @ ''<div class="batch-doc-result critical"><div class="doc-name">a.pdf</div>''
         @ ''<div class="doc-stats">Red Flags: 1 | Clauses Found: 2/5</div></div>''
         @ ''<div class="batch-doc-result "><div class="doc-name">b.pdf</div>''
         @ ''<div class="doc-stats"><span style="color: #dc2626;">Error: OCR failed</span></div></div>''
         @ ''<div class="batch-doc-result "><div class="doc-name">c.pdf</div>''
         @ ''<div class="doc-stats">Red Flags: 0 | Clauses Found: 0/0</div></div>''
         @ ''</div></div>''\<close>
    by (simp add: resultsHTML_def summary_card_html_def batch_doc_results_html_def
          batch_doc_result_html_def doc_stats_html_def Let_def isCritical_def hasIssues_def
          rfCount_def compliant_of_def total_of_def count_or_0_def show_string_def res_defs
          batch_summary_1_def string_of_nat.simps digit_def)
  have status: "br_status result_err = ''error''" "br_status result_ok_1 \<noteq> ''error''"
    by (simp_all add: res_defs)
  note err = batch_entries_rendered_independently [where r = result_err and pre = "[result_ok_1]"
      and post = "[result_ok_2]" and summary = batch_summary_1 and e = env_a4 and i = 0
      and rs = "[result_ok_1, result_err, result_ok_2]"
      and d = "batch_header env_a4 batch_summary_1" and idx = 1 and yp = "(163, 1)"]
  note ok = batch_entries_rendered_independently [where r = result_ok_1 and pre = "[]"
      and post = "[result_err, result_ok_2]" and summary = batch_summary_1 and e = env_a4
      and i = 0 and rs = "[]" and d = new_jsPDF and idx = 0 and yp = "(123, 1)"]
  have e1: \<open>batch_doc_result_html result_ok_1
       = ''<div class="batch-doc-result critical"><div class="doc-name">a.pdf</div>''
         @ ''<div class="doc-stats">Red Flags: 1 | Clauses Found: 2/5</div></div>''\<close>
    using ok status
    by (simp add: Let_def res_defs string_of_nat.simps digit_def)
  have e2: \<open>batch_doc_result_html result_err
       = ''<div class="batch-doc-result "><div class="doc-name">b.pdf</div>''
         @ ''<div class="doc-stats"><span style="color: #dc2626;">Error: OCR failed</span></div></div>''\<close>
    using err status
    by (simp add: Let_def res_defs)
  have loop: "drawn (forEach_idx (batch_entry env_a4) 0 [result_ok_1, result_err, result_ok_2]
         (batch_header env_a4 batch_summary_1))
       = drawn (batch_header env_a4 batch_summary_1)
         @ entry_drawn env_a4 0 result_ok_1 (123, 1)
         @ entry_drawn env_a4 1 result_err (163, 1)
         @ entry_drawn env_a4 2 result_ok_2 (203, 1)"
    using err
    by (simp add: Let_def batch_header_cursor entry_layout_def env_a4_def upt_rec
          numeral_2_eq_2 numeral_3_eq_3 del: forEach_idx.simps)
  have t1: "draw_texts (entry_drawn env_a4 0 result_ok_1 (123, 1))
       = [''1. a.pdf'', ''Red Flags: 1'', ''Required Clauses: 2/5'',
          ''  - [CRITICAL] POSSESSION_DATE: No possession date is stated....'']"
    by (simp add: entry_drawn_def batch_entry_def Let_def res_defs rfCount_def compliant_of_def
          total_of_def count_or_0_def substring0_def string_of_nat.simps digit_def
          red_flag_lines_def)
  have t2: "draw_texts (entry_drawn env_a4 1 result_err (163, 1)) = [''2. b.pdf'', ''Error: OCR failed'']"
    using err status by (simp add: Let_def res_defs string_of_nat.simps digit_def)
  have t3: "draw_texts (entry_drawn env_a4 2 result_ok_2 (203, 1))
       = [''3. c.pdf'', ''Red Flags: 0'', ''Required Clauses: 0/0'']"
    by (simp add: entry_drawn_def batch_entry_def Let_def res_defs rfCount_def compliant_of_def
          total_of_def count_or_0_def string_of_nat.simps digit_def)
  show ?thesis
    unfolding screen e1 e2 loop t1 t2 t3 batch_1_texts
    using status by simp
qed


end
